theory Spec2Isabelle
  imports Main
begin

section \<open>Values exchanged with the HTTP layer\<close>

text \<open>
  A response body is a JSON value. An object keeps its members in the order the
  source writes them.
\<close>

datatype json =
    JNull
  | JBool bool
  | JNum int
  | JStr string
  | JArr "json list"
  | JObj "(string \<times> json) list"

record response =
  status :: nat
  rbody :: json

text \<open>
  A thrown JavaScript error, with the members that \<open>errorHandler\<close> inspects
  (\<open>interface CustomError\<close> of \<open>middleware/error.ts\<close>): \<open>name\<close>, \<open>message\<close>,
  \<open>status?\<close>, \<open>code?\<close> and \<open>errors?\<close> (path and message of each failed validator).
\<close>

record js_error =
  err_name :: string
  err_message :: string
  err_status :: "nat option"
  err_code :: "nat option"
  err_errors :: "(string \<times> string) list option"

definition Error :: "string \<Rightarrow> js_error" where
  "Error msg = \<lparr>err_name = ''Error'', err_message = msg, err_status = None,
                err_code = None, err_errors = None\<rparr>"

text \<open>
  What a middleware or handler does with a request: it sends a response, it calls
  \<open>next()\<close> (passing the possibly augmented request on), or it calls \<open>next(err)\<close>.
\<close>

datatype 'a outcome = Respond response | Next 'a | NextErr js_error

section \<open>The User model (\<open>models/User\<close>)\<close>

datatype role = Administrator | Client | Employee

fun role_name :: "role \<Rightarrow> string" where
  "role_name Administrator = ''administrator''"
| "role_name Client = ''client''"
| "role_name Employee = ''employee''"

definition parse_role :: "string \<Rightarrow> role option" where
  "parse_role s =
     (if s = ''administrator'' then Some Administrator
      else if s = ''client'' then Some Client
      else if s = ''employee'' then Some Employee
      else None)"

text \<open>
  A persisted user, with the paths of \<open>UserSchema\<close>. \<open>uid\<close> is \<open>_id\<close> (an ObjectId,
  written as its hexadecimal text), \<open>password\<close> is whatever the store holds at the
  \<open>password\<close> path, \<open>createdAt\<close> is an instant in epoch milliseconds.
\<close>

record user =
  uid :: string
  name :: string
  username :: string
  email :: string
  role :: role
  password :: string
  phone :: "string option"
  address :: "string option"
  createdAt :: nat

text \<open>The Credential Store: the \<open>users\<close> collection, in insertion order.\<close>

type_synonym store = "user list"

text \<open>
  A document as a query returns it: the persisted user together with the paths
  the query's projection loaded. A path that was not loaded reads as \<open>undefined\<close>
  and is left out of the document's JSON.
\<close>

record document =
  doc :: user
  selected :: "string list"

definition schema_paths :: "string list" where
  "schema_paths = [''_id'', ''name'', ''username'', ''email'', ''role'', ''password'',
                   ''phone'', ''address'', ''createdAt'', ''__v'']"

text \<open>\<open>this.password\<close> on a document.\<close>

definition doc_password :: "document \<Rightarrow> string option" where
  "doc_password d =
     (if ''password'' \<in> set (selected d) then Some (password (doc d)) else None)"

section \<open>String helpers of the JavaScript runtime\<close>

text \<open>\<open>!s\<close> is false exactly for a defined, non-empty string.\<close>

definition truthy :: "string option \<Rightarrow> bool" where
  "truthy s = (case s of None \<Rightarrow> False | Some t \<Rightarrow> t \<noteq> [])"

text \<open>
  A \<open>char\<close> stands for one UTF-16 code unit below \<open>0x100\<close>, so \<open>length\<close> is the
  \<open>length\<close> of the source's strings and the strings of the model are those made
  of such units.
\<close>

text \<open>\<open>!v\<close> is false for a JSON value other than \<open>null\<close>, \<open>false\<close>, \<open>0\<close> and \<open>""\<close>.\<close>

fun js_truthy :: "json \<Rightarrow> bool" where
  "js_truthy JNull = False"
| "js_truthy (JBool b) = b"
| "js_truthy (JNum n) = (n \<noteq> 0)"
| "js_truthy (JStr s) = (s \<noteq> [])"
| "js_truthy (JArr xs) = True"
| "js_truthy (JObj kvs) = True"

text \<open>\<open>typeof v\<close>.\<close>

fun js_typeof :: "json \<Rightarrow> string" where
  "js_typeof JNull = ''object''"
| "js_typeof (JBool b) = ''boolean''"
| "js_typeof (JNum n) = ''number''"
| "js_typeof (JStr s) = ''string''"
| "js_typeof (JArr xs) = ''object''"
| "js_typeof (JObj kvs) = ''object''"

text \<open>
  \<open>String(n)\<close> for an integer \<open>n\<close>: its decimal digits. (Numbers are integers in
  the model; the source's doubles agree with them below \<open>2^53\<close> in size.)
\<close>

function show_nat :: "nat \<Rightarrow> string" where
  "show_nat n =
     (if n < 10 then [''0123456789'' ! n]
      else show_nat (n div 10) @ [''0123456789'' ! (n mod 10)])"
  by pat_completeness auto
termination
  by (relation "measure (\<lambda>n. n)") auto

definition show_int :: "int \<Rightarrow> string" where
  "show_int i = (if i < 0 then CHR ''-'' # show_nat (nat (- i)) else show_nat (nat i))"

text \<open>The value of \<open>s\<close> when \<open>s\<close> is truthy.\<close>

definition nonempty :: "string option \<Rightarrow> string option" where
  "nonempty s = (case s of None \<Rightarrow> None | Some t \<Rightarrow> if t = [] then None else Some t)"

definition startsWith :: "string \<Rightarrow> string \<Rightarrow> bool" where
  "startsWith s p = (take (length p) s = p)"

text \<open>
  Splitting at separator characters: every separator ends a piece, so the result
  is never empty and may hold empty pieces. \<open>s.split(c)\<close> for a one-character
  separator \<open>c\<close> is the instance \<open>split c\<close>.
\<close>

fun split_when :: "(char \<Rightarrow> bool) \<Rightarrow> string \<Rightarrow> string list" where
  "split_when sep [] = [[]]"
| "split_when sep (x # xs) =
     (if sep x then [] # split_when sep xs
      else (case split_when sep xs of
              [] \<Rightarrow> [[x]]
            | w # ws \<Rightarrow> (x # w) # ws))"

definition split :: "char \<Rightarrow> string \<Rightarrow> string list" where
  "split c s = split_when (\<lambda>x. x = c) s"

text \<open>\<open>xs[i]\<close>: \<open>undefined\<close> out of range.\<close>

definition at_index :: "'a list \<Rightarrow> nat \<Rightarrow> 'a option" where
  "at_index xs i = (if i < length xs then Some (xs ! i) else None)"

fun join :: "string \<Rightarrow> string list \<Rightarrow> string" where
  "join sep [] = []"
| "join sep [x] = x"
| "join sep (x # y # ys) = x @ sep @ join sep (y # ys)"

section \<open>Libraries the source calls\<close>

text \<open>
  The decoded payload of a token: the \<open>id\<close> member the source reads, the issuance
  instant and the expiration instant (absent when the token carries none).
\<close>

record payload =
  pl_id :: "string option"
  pl_iat :: nat
  pl_exp :: "nat option"

text \<open>
  The source delegates signing, verification, password hashing and pattern
  matching to \<open>jsonwebtoken\<close>, \<open>bcryptjs\<close> and the regular-expression engine.
  They are parameters of the model:
  \<^item> \<open>jwt_sign id secret expiresIn now\<close> is \<open>jwt.sign({id}, secret, {expiresIn})\<close> at
    instant \<open>now\<close>; \<open>expiresIn\<close> is \<open>None\<close> when the option's value is \<open>undefined\<close>;
  \<^item> \<open>jwt_verify token secret now\<close> is \<open>jwt.verify(token, secret)\<close>, which throws or
    returns the payload;
  \<^item> \<open>bcrypt_hash plain salt\<close> and \<open>bcrypt_compare candidate stored\<close>;
  \<^item> \<open>email_match s\<close> is the \<open>match\<close> pattern of the \<open>email\<close> path tested on \<open>s\<close>;
  \<^item> \<open>regex_test pattern s\<close> is a case-insensitive \<open>$regex\<close> filter tested on \<open>s\<close>
    (a pattern the database refuses as ill-formed is outside the model);
  \<^item> \<open>cast_message v path\<close> is the message of the error the database library
    builds when the value \<open>v\<close> cannot be cast to the string path \<open>path\<close>;
  \<^item> \<open>regex_cast_error path\<close> is the error the database library throws when a
    \<open>$regex\<close> filter is put on the path \<open>path\<close>, which holds no string.
\<close>

record lib =
  jwt_sign :: "string option \<Rightarrow> string \<Rightarrow> string option \<Rightarrow> nat \<Rightarrow> js_error + string"
  jwt_verify :: "string \<Rightarrow> string \<Rightarrow> nat \<Rightarrow> js_error + payload"
  bcrypt_hash :: "string \<Rightarrow> string \<Rightarrow> string"
  bcrypt_compare :: "string \<Rightarrow> string \<Rightarrow> bool"
  email_match :: "string \<Rightarrow> bool"
  regex_test :: "string \<Rightarrow> string \<Rightarrow> bool"
  cast_message :: "json \<Rightarrow> string \<Rightarrow> string"
  regex_cast_error :: "string \<Rightarrow> js_error"

text \<open>\<open>process.env\<close>.\<close>

type_synonym env = "string \<rightharpoonup> string"

section \<open>Requests\<close>

text \<open>
  The members of a request body that the handlers read (\<open>undefined\<close> is \<open>None\<close>).
  The body is parsed JSON, so a member can hold any JSON value; the model keeps
  that for \<open>password\<close>, the member that reaches \<open>bcrypt.compare\<close> as it is, and takes
  the other members as strings.
\<close>

record body =
  b_name :: "string option"
  b_username :: "string option"
  b_email :: "string option"
  b_password :: "json option"
  b_role :: "string option"
  b_phone :: "string option"
  b_address :: "string option"

text \<open>
  \<open>AuthenticatedRequest\<close>: the \<open>Authorization\<close> header, the identity attached by
  \<open>protect\<close> (\<open>req.user\<close>), the body, the query string as key/value pairs in the
  order given, and \<open>req.params.id\<close>.
\<close>

record request =
  authorization :: "string option"
  req_user :: "document option"
  req_body :: body
  req_query :: "(string \<times> string) list"
  params_id :: string

section \<open>Queries against the store\<close>

text \<open>
  The projection a query applies. The schema marks \<open>password\<close> with
  \<open>select: false\<close>, so a query that says nothing loads every path but that one.
\<close>

definition default_paths :: "string list" where
  "default_paths = filter (\<lambda>p. p \<noteq> ''password'') schema_paths"

text \<open>
  \<open>.select(s)\<close> with a string: the words of \<open>s\<close>, separated by white space, are
  paths; \<open>-p\<close> excludes \<open>p\<close>, \<open>+p\<close> forces a path in that the schema leaves out by
  default, a bare \<open>p\<close> makes the projection inclusive (only the named paths and
  \<open>_id\<close>). The database refuses a projection that both includes and excludes
  (\<open>_id\<close> apart).
\<close>

text \<open>
  White space of the JavaScript runtime (\<open>\s\<close>, \<open>trim\<close>, \<open>parseInt\<close>) among the
  code units below \<open>0x100\<close>: tab, line feed, vertical tab, form feed, carriage
  return, space and the no-break space.
\<close>

definition is_space :: "char \<Rightarrow> bool" where
  "is_space c =
     (c \<in> set [CHR '' '', CHR 0x09, CHR 0x0A, CHR 0x0B, CHR 0x0C, CHR 0x0D, CHR 0xA0])"

definition select_words :: "string \<Rightarrow> string list" where
  "select_words s = filter (\<lambda>w. w \<noteq> []) (split_when is_space s)"

definition plus_paths :: "string list \<Rightarrow> string list" where
  "plus_paths ws = map (drop 1) (filter (\<lambda>w. startsWith w ''+'') ws)"

definition minus_paths :: "string list \<Rightarrow> string list" where
  "minus_paths ws = map (drop 1) (filter (\<lambda>w. startsWith w ''-'') ws)"

definition bare_paths :: "string list \<Rightarrow> string list" where
  "bare_paths ws = filter (\<lambda>w. \<not> startsWith w ''+'' \<and> \<not> startsWith w ''-'') ws"

definition MongoServerError :: "nat \<Rightarrow> string \<Rightarrow> js_error" where
  "MongoServerError c msg = \<lparr>err_name = ''MongoServerError'', err_message = msg,
       err_status = None, err_code = Some c, err_errors = None\<rparr>"

definition select_paths :: "string \<Rightarrow> js_error + string list" where
  "select_paths s =
     (let ws = select_words s; inc = bare_paths ws; exc = minus_paths ws;
          frc = plus_paths ws
      in if inc \<noteq> [] then
           (if filter (\<lambda>p. p \<noteq> ''_id'') exc \<noteq> [] then
              Inl (MongoServerError 31254
                     ''Cannot do exclusion in an inclusion projection'')
            else Inr (filter (\<lambda>p. (p = ''_id'' \<and> p \<notin> set exc) \<or> p \<in> set inc
                                  \<or> p \<in> set frc) schema_paths))
         else Inr (filter (\<lambda>p. p \<notin> set exc
                                  \<and> (if p = ''password'' then p \<in> set frc else True))
                          schema_paths))"

text \<open>
  Casting a value to an ObjectId: 24 hexadecimal digits, read without regard to
  letter case. Anything else makes the query throw a \<open>CastError\<close>. (Library
  versions that also cast a string of 12 bytes are not modelled.)
\<close>

definition hex_lower :: "char \<Rightarrow> char option" where
  "hex_lower c = map_of (zip ''0123456789abcdefABCDEF'' ''0123456789abcdefabcdef'') c"

definition cast_object_id :: "string \<Rightarrow> string option" where
  "cast_object_id s =
     (if length s = 24 \<and> list_all (\<lambda>c. hex_lower c \<noteq> None) s
      then Some (map (\<lambda>c. case hex_lower c of Some l \<Rightarrow> l | None \<Rightarrow> c) s)
      else None)"

definition CastError :: "string \<Rightarrow> js_error" where
  "CastError v = \<lparr>err_name = ''CastError'',
       err_message = ''Cast to ObjectId failed for value '' @ v,
       err_status = None, err_code = None, err_errors = None\<rparr>"

text \<open>
  \<open>User.findById(id)\<close>: \<open>null\<close> for an \<open>undefined\<close> id, a \<open>CastError\<close> for an id that
  is no ObjectId, otherwise the user with that \<open>_id\<close> under the default
  projection.
\<close>

definition findById :: "store \<Rightarrow> string option \<Rightarrow> js_error + document option" where
  "findById db i =
     (case i of
        None \<Rightarrow> Inr None
      | Some s \<Rightarrow>
          (case cast_object_id s of
             None \<Rightarrow> Inl (CastError s)
           | Some oid \<Rightarrow>
               Inr (map_option (\<lambda>u. \<lparr>doc = u, selected = default_paths\<rparr>)
                      (find (\<lambda>u. uid u = oid) db))))"

text \<open>\<open>req.user.role\<close> and \<open>req.user.id\<close> on a document.\<close>

definition doc_role :: "document \<Rightarrow> string option" where
  "doc_role d =
     (if ''role'' \<in> set (selected d) then Some (role_name (role (doc d))) else None)"

definition doc_id :: "document \<Rightarrow> string option" where
  "doc_id d = (if ''_id'' \<in> set (selected d) then Some (uid (doc d)) else None)"

section \<open>The Authentication Gate and the Authorization Gate (\<open>middleware/auth.ts\<close>)\<close>

definition secret_missing :: js_error where
  "secret_missing = Error ''JWT_SECRET is not defined in environment variables''"

definition message_body :: "string \<Rightarrow> json" where
  "message_body msg = JObj [(''success'', JBool False), (''message'', JStr msg)]"

definition not_authorized :: response where
  "not_authorized =
     \<lparr>status = 401, rbody = message_body ''Not authorized to access this route''\<rparr>"

text \<open>
  Lines 12 to 20 of \<open>protect\<close>: the token is the second piece of the header split
  at single spaces, when the header is non-empty and starts with \<open>Bearer\<close>.
\<close>

definition bearer_token :: "request \<Rightarrow> string option" where
  "bearer_token req =
     (case authorization req of
        None \<Rightarrow> None
      | Some h \<Rightarrow>
          (if h \<noteq> [] \<and> startsWith h ''Bearer''
           then at_index (split CHR '' '' h) 1 else None))"

text \<open>The body of the \<open>try\<close> block of \<open>protect\<close>; \<open>Inl\<close> is a thrown error.\<close>

definition protect_try ::
  "lib \<Rightarrow> env \<Rightarrow> store \<Rightarrow> nat \<Rightarrow> string \<Rightarrow> request \<Rightarrow> js_error + request outcome" where
  "protect_try L e db now token req =
     (case nonempty (e ''JWT_SECRET'') of
        None \<Rightarrow> Inl secret_missing
      | Some secret \<Rightarrow>
             (case jwt_verify L token secret now of
                Inl err \<Rightarrow> Inl err
              | Inr decoded \<Rightarrow>
                  (case findById db (pl_id decoded) of
                     Inl err \<Rightarrow> Inl err
                   | Inr None \<Rightarrow>
                       Inr (Respond \<lparr>status = 401, rbody = message_body ''User not found''\<rparr>)
                   | Inr (Some u) \<Rightarrow> Inr (Next (req\<lparr>req_user := Some u\<rparr>)))))"

definition protect :: "lib \<Rightarrow> env \<Rightarrow> store \<Rightarrow> nat \<Rightarrow> request \<Rightarrow> request outcome" where
  "protect L e db now req =
     (case bearer_token req of
        None \<Rightarrow> Respond not_authorized
      | Some token \<Rightarrow>
          (if token = [] then Respond not_authorized
           else
             (case protect_try L e db now token req of
                Inl err \<Rightarrow> Respond not_authorized
              | Inr out \<Rightarrow> out)))"

definition forbidden :: "string \<Rightarrow> response" where
  "forbidden r =
     \<lparr>status = 403,
      rbody = message_body (''User role '' @ r @ '' is not authorized to access this route'')\<rparr>"

definition authorize :: "string list \<Rightarrow> request \<Rightarrow> request outcome" where
  "authorize roles req =
     (case req_user req of
        None \<Rightarrow> Respond (forbidden ''undefined'')
      | Some u \<Rightarrow>
          (case doc_role u of
             None \<Rightarrow> Respond (forbidden ''undefined'')
           | Some r \<Rightarrow>
               (if r \<in> set roles then Next req else Respond (forbidden r))))"

section \<open>Methods and hooks of the User model\<close>

text \<open>
  \<open>UserSchema.methods.getSignedJwtToken\<close>: the payload is \<open>{id: this._id}\<close>, the
  option \<open>expiresIn\<close> is \<open>process.env.JWT_EXPIRE\<close> as it stands.
\<close>

definition getSignedJwtToken :: "lib \<Rightarrow> env \<Rightarrow> nat \<Rightarrow> document \<Rightarrow> js_error + string" where
  "getSignedJwtToken L e now d =
     (case nonempty (e ''JWT_SECRET'') of
        None \<Rightarrow> Inl secret_missing
      | Some secret \<Rightarrow> jwt_sign L (doc_id d) secret (e ''JWT_EXPIRE'') now)"

text \<open>
  \<open>UserSchema.methods.matchPassword\<close>: \<open>bcrypt.compare(enteredPassword,
  this.password)\<close>. The parameter is declared a string, but \<open>login\<close> passes the body's
  member as it came. The library compares two strings and rejects anything
  else with \<open>Illegal arguments: <typeof candidate>, <typeof stored>\<close>.
\<close>

definition matchPassword :: "lib \<Rightarrow> document \<Rightarrow> json \<Rightarrow> js_error + bool" where
  "matchPassword L d enteredPassword =
     (case (enteredPassword, doc_password d) of
        (JStr candidate, Some stored) \<Rightarrow> Inr (bcrypt_compare L candidate stored)
      | (v, stored) \<Rightarrow>
          Inl (Error (''Illegal arguments: '' @ js_typeof v @ '', '' @
                      (case stored of None \<Rightarrow> ''undefined'' | Some h \<Rightarrow> ''string''))))"

text \<open>
  \<open>UserSchema.pre('save')\<close>: when the \<open>password\<close> path is modified, the stored
  value becomes \<open>bcrypt.hash(this.password, salt)\<close>; the salt that
  \<open>bcrypt.genSalt(10)\<close> draws is an input of the model.
\<close>

definition pre_save :: "lib \<Rightarrow> string \<Rightarrow> bool \<Rightarrow> user \<Rightarrow> user" where
  "pre_save L salt password_modified u =
     (if \<not> password_modified then u
      else u\<lparr>password := bcrypt_hash L (password u) salt\<rparr>)"

subsection \<open>Schema validators\<close>

definition trim :: "string \<Rightarrow> string" where
  "trim s = rev (dropWhile is_space (rev (dropWhile is_space s)))"

text \<open>
  Each path reports its first failing validator; \<open>required\<close> runs first and
  fails on \<open>undefined\<close> and on the empty string. The argument is the value after
  the path's setters (\<open>trim\<close>).
\<close>

definition check_name :: "string option \<Rightarrow> (string \<times> string) list" where
  "check_name v =
     (case nonempty v of
        None \<Rightarrow> [(''name'', ''Please add a name'')]
      | Some s \<Rightarrow>
          (if length s > 50 then [(''name'', ''Name cannot be more than 50 characters'')]
           else []))"

definition check_username :: "string option \<Rightarrow> (string \<times> string) list" where
  "check_username v =
     (case nonempty v of
        None \<Rightarrow> [(''username'', ''Please add a username'')]
      | Some s \<Rightarrow>
          (if length s > 30
           then [(''username'', ''Username cannot be more than 30 characters'')]
           else []))"

definition check_email :: "lib \<Rightarrow> string option \<Rightarrow> (string \<times> string) list" where
  "check_email L v =
     (case nonempty v of
        None \<Rightarrow> [(''email'', ''Please add an email'')]
      | Some s \<Rightarrow>
          (if \<not> email_match L s then [(''email'', ''Please add a valid email'')]
           else []))"

definition check_role :: "string option \<Rightarrow> (string \<times> string) list" where
  "check_role v =
     (case v of
        None \<Rightarrow> []
      | Some s \<Rightarrow>
          (case parse_role s of
             None \<Rightarrow>
               [(''role'', CHR 0x60 # s @ [CHR 0x60]
                           @ '' is not a valid enum value for path '' @
                           [CHR 0x60] @ ''role'' @ [CHR 0x60] @ ''.'')]
           | Some r \<Rightarrow> []))"

text \<open>
  Casting a JSON value to a string path: \<open>null\<close> stays \<open>null\<close>, a string is kept, a
  number or a boolean becomes its text, an object that holds a string \<open>_id\<close>
  becomes that \<open>_id\<close>, and any other object or array cannot be cast.
\<close>

datatype cast_result = Uncastable | Absent | Cast string

fun castString :: "json option \<Rightarrow> cast_result" where
  "castString None = Absent"
| "castString (Some JNull) = Absent"
| "castString (Some (JStr s)) = Cast s"
| "castString (Some (JNum n)) = Cast (show_int n)"
| "castString (Some (JBool b)) = Cast (if b then ''true'' else ''false'')"
| "castString (Some (JArr xs)) = Uncastable"
| "castString (Some (JObj kvs)) =
     (case map_of kvs ''_id'' of
        Some (JStr i) \<Rightarrow> if i \<noteq> [] then Cast i else Uncastable
      | _ \<Rightarrow> Uncastable)"

definition check_password :: "lib \<Rightarrow> json option \<Rightarrow> (string \<times> string) list" where
  "check_password L v =
     (case castString v of
        Uncastable \<Rightarrow>
          [(''password'', cast_message L (case v of None \<Rightarrow> JNull | Some x \<Rightarrow> x) ''password'')]
      | Absent \<Rightarrow> [(''password'', ''Please add a password'')]
      | Cast s \<Rightarrow>
          (if s = [] then [(''password'', ''Please add a password'')]
           else if length s < 6
           then [(''password'', ''Password must be at least 6 characters'')]
           else []))"

definition check_phone :: "string option \<Rightarrow> (string \<times> string) list" where
  "check_phone v =
     (case v of
        None \<Rightarrow> []
      | Some s \<Rightarrow>
          (if length s > 20
           then [(''phone'', ''Phone number cannot be longer than 20 characters'')]
           else []))"

definition check_address :: "string option \<Rightarrow> (string \<times> string) list" where
  "check_address v =
     (case v of
        None \<Rightarrow> []
      | Some s \<Rightarrow>
          (if length s > 200
           then [(''address'', ''Address cannot be longer than 200 characters'')]
           else []))"

definition ValidationError :: "(string \<times> string) list \<Rightarrow> js_error" where
  "ValidationError es =
     \<lparr>err_name = ''ValidationError'',
      err_message = ''User validation failed: '' @
         join '', '' (map (\<lambda>(p, m). p @ '': '' @ m) es),
      err_status = None, err_code = None, err_errors = Some es\<rparr>"

definition duplicate_key :: js_error where
  "duplicate_key = MongoServerError 11000 ''E11000 duplicate key error collection: users''"

subsection \<open>\<open>User.create\<close>\<close>

text \<open>The validators of a new document, in schema order.\<close>

definition validate_new :: "lib \<Rightarrow> body \<Rightarrow> (string \<times> string) list" where
  "validate_new L b =
     check_name (map_option trim (b_name b))
     @ check_username (map_option trim (b_username b))
     @ check_email L (b_email b)
     @ check_role (b_role b)
     @ check_password L (b_password b)
     @ check_phone (b_phone b)
     @ check_address (b_address b)"

text \<open>
  The unique indexes: \<open>_id\<close>, and \<open>username\<close> and \<open>email\<close> (\<open>unique: true\<close>). \<open>others\<close>
  are the documents the written one must differ from.
\<close>

definition collides :: "user \<Rightarrow> user list \<Rightarrow> bool" where
  "collides u others =
     list_ex (\<lambda>v. uid v = uid u \<or> username v = username u \<or> email v = email u) others"

text \<open>
  \<open>User.create(attributes)\<close>: setters and defaults, validation, the \<open>save\<close> hook,
  then the insert, which the unique indexes may refuse. \<open>new_id\<close> is the ObjectId
  generated for the document, \<open>now\<close> the value of \<open>Date.now\<close>. The returned
  document carries every path, the stored \<open>password\<close> included.
\<close>

definition create ::
  "lib \<Rightarrow> store \<Rightarrow> string \<Rightarrow> string \<Rightarrow> nat \<Rightarrow> body \<Rightarrow> js_error + (document \<times> store)" where
  "create L db new_id salt now b =
     (let errs = validate_new L b in
      if errs \<noteq> [] then Inl (ValidationError errs)
      else
        (case (b_name b, b_username b, b_email b, castString (b_password b)) of
           (Some n, Some un, Some em, Cast pw) \<Rightarrow>
             (let u = pre_save L salt True
                        \<lparr>uid = new_id, name = trim n, username = trim un, email = em,
                         role = (case b_role b of
                                   None \<Rightarrow> Client
                                 | Some r \<Rightarrow> (case parse_role r of
                                                None \<Rightarrow> Client | Some x \<Rightarrow> x)),
                         password = pw, phone = b_phone b, address = b_address b,
                         createdAt = now\<rparr>
              in if collides u db then Inl duplicate_key
                 else Inr (\<lparr>doc = u, selected = schema_paths\<rparr>, db @ [u]))
         | _ \<Rightarrow> Inl (ValidationError errs)))"

subsection \<open>\<open>User.findOne\<close>, \<open>findByIdAndUpdate\<close>, \<open>findByIdAndDelete\<close>\<close>

text \<open>The string-valued paths of a user, as an equality or pattern filter reads them.\<close>

definition str_field :: "user \<Rightarrow> string \<Rightarrow> string option" where
  "str_field u k =
     (if k = ''name'' then Some (name u)
      else if k = ''username'' then Some (username u)
      else if k = ''email'' then Some (email u)
      else if k = ''role'' then Some (role_name (role u))
      else if k = ''password'' then Some (password u)
      else if k = ''phone'' then phone u
      else if k = ''address'' then address u
      else None)"

definition matches :: "(string \<times> string) list \<Rightarrow> user \<Rightarrow> bool" where
  "matches q u = list_all (\<lambda>(k, v). str_field u k = Some v) q"

text \<open>
  Casting a filter runs the setters of each path on the value it is compared
  with: the \<open>trim\<close> of \<open>name\<close> and \<open>username\<close>.
\<close>

definition cast_filter :: "(string \<times> string) list \<Rightarrow> (string \<times> string) list" where
  "cast_filter q =
     map (\<lambda>(k, v). if k = ''name'' \<or> k = ''username'' then (k, trim v) else (k, v)) q"

text \<open>
  \<open>User.findOne(query).select(s)\<close>: the first user meeting every equality of the
  cast \<open>query\<close>.
\<close>

definition findOne ::
  "store \<Rightarrow> (string \<times> string) list \<Rightarrow> string \<Rightarrow> js_error + document option" where
  "findOne db q s =
     (case select_paths s of
        Inl err \<Rightarrow> Inl err
      | Inr ps \<Rightarrow>
          Inr (map_option (\<lambda>u. \<lparr>doc = u, selected = ps\<rparr>) (find (matches (cast_filter q)) db)))"

text \<open>
  The validators of an update (\<open>runValidators: true\<close>) run on the paths the update
  sets, and only on those. (The body record keeps no key order; the messages
  are listed in schema order.)
\<close>

definition validate_update :: "lib \<Rightarrow> body \<Rightarrow> (string \<times> string) list" where
  "validate_update L b =
     (case b_name b of None \<Rightarrow> [] | Some v \<Rightarrow> check_name (Some (trim v)))
     @ (case b_username b of None \<Rightarrow> [] | Some v \<Rightarrow> check_username (Some (trim v)))
     @ (case b_email b of None \<Rightarrow> [] | Some v \<Rightarrow> check_email L (Some v))
     @ check_role (b_role b)
     @ (case b_password b of None \<Rightarrow> [] | Some v \<Rightarrow> check_password L (Some v))
     @ check_phone (b_phone b)
     @ check_address (b_address b)"

text \<open>The update itself: each path present in the body replaces the stored value.\<close>

definition apply_update :: "body \<Rightarrow> user \<Rightarrow> user" where
  "apply_update b u =
     u\<lparr>name := (case b_name b of None \<Rightarrow> name u | Some v \<Rightarrow> trim v),
       username := (case b_username b of None \<Rightarrow> username u | Some v \<Rightarrow> trim v),
       email := (case b_email b of None \<Rightarrow> email u | Some v \<Rightarrow> v),
       role := (case b_role b of
                  None \<Rightarrow> role u
                | Some r \<Rightarrow> (case parse_role r of None \<Rightarrow> role u | Some x \<Rightarrow> x)),
       password := (case castString (b_password b) of Cast v \<Rightarrow> v | _ \<Rightarrow> password u),
       phone := (case b_phone b of None \<Rightarrow> phone u | Some v \<Rightarrow> Some v),
       address := (case b_address b of None \<Rightarrow> address u | Some v \<Rightarrow> Some v)\<rparr>"

text \<open>
  \<open>User.findByIdAndUpdate(id, body, {new: true, runValidators: true})\<close>. It is a
  query, not a \<open>save\<close>: the \<open>save\<close> hook does not run. The result is the updated
  document under the default projection, or \<open>null\<close>.
\<close>

definition findByIdAndUpdate ::
  "lib \<Rightarrow> store \<Rightarrow> string \<Rightarrow> body \<Rightarrow> js_error + (document option \<times> store)" where
  "findByIdAndUpdate L db i b =
     (case cast_object_id i of
        None \<Rightarrow> Inl (CastError i)
      | Some oid \<Rightarrow>
          (let errs = validate_update L b in
           if errs \<noteq> [] then Inl (ValidationError errs)
           else
             (case find (\<lambda>u. uid u = oid) db of
                None \<Rightarrow> Inr (None, db)
              | Some u \<Rightarrow>
                  (let u' = apply_update b u in
                   if collides u' (filter (\<lambda>v. uid v \<noteq> oid) db) then Inl duplicate_key
                   else Inr (Some \<lparr>doc = u', selected = default_paths\<rparr>,
                             map (\<lambda>v. if uid v = oid then u' else v) db)))))"

definition findByIdAndDelete ::
  "store \<Rightarrow> string \<Rightarrow> js_error + (document option \<times> store)" where
  "findByIdAndDelete db i =
     (case cast_object_id i of
        None \<Rightarrow> Inl (CastError i)
      | Some oid \<Rightarrow>
          (case find (\<lambda>u. uid u = oid) db of
             None \<Rightarrow> Inr (None, db)
           | Some u \<Rightarrow>
               Inr (Some \<lparr>doc = u, selected = default_paths\<rparr>,
                    filter (\<lambda>v. uid v \<noteq> oid) db)))"

subsection \<open>Serialising a document\<close>

definition field_json :: "user \<Rightarrow> string \<Rightarrow> json option" where
  "field_json u k =
     (if k = ''_id'' then Some (JStr (uid u))
      else if k = ''createdAt'' then Some (JNum (int (createdAt u)))
      else if k = ''__v'' then Some (JNum 0)
      else map_option JStr (str_field u k))"

text \<open>
  \<open>res.json\<close> of a document: the loaded paths that hold a value. (A date is
  written here as its epoch number.)
\<close>

definition toJSON :: "document \<Rightarrow> json" where
  "toJSON d =
     JObj (concat (map (\<lambda>p. case field_json (doc d) p of
                               None \<Rightarrow> []
                             | Some v \<Rightarrow> [(p, v)])
                       (filter (\<lambda>p. p \<in> set (selected d)) schema_paths)))"

section \<open>The error handler (\<open>middleware/error.ts\<close>)\<close>

text \<open>
  \<open>errorHandler\<close> keeps \<open>message\<close> and \<open>status\<close> of the error and overwrites them in
  turn for a \<open>CastError\<close>, for code 11000 and for a \<open>ValidationError\<close> that has
  \<open>errors\<close>; a missing status is 500 and an empty message is \<open>Server Error\<close>.
\<close>

definition errorHandler :: "js_error \<Rightarrow> response" where
  "errorHandler err =
     (let e0 = (err_message err, err_status err);
          e1 = (if err_name err = ''CastError'' then (''Resource not found'', Some 404)
                else e0);
          e2 = (if err_code err = Some 11000
                then (''Duplicate field value entered'', Some 400) else e1);
          e3 = (case err_errors err of
                  None \<Rightarrow> e2
                | Some es \<Rightarrow>
                    (if err_name err = ''ValidationError''
                     then (join '', '' (map snd es), Some 400) else e2))
      in \<lparr>status = (case snd e3 of None \<Rightarrow> 500 | Some st \<Rightarrow> if st = 0 then 500 else st),
          rbody = JObj [(''success'', JBool False),
                        (''error'', JStr (if fst e3 = [] then ''Server Error'' else fst e3))]\<rparr>)"

text \<open>
  The application mounts \<open>errorHandler\<close> last, so \<open>next(err)\<close> ends in its response.
\<close>

definition settle :: "'a outcome \<Rightarrow> 'a outcome" where
  "settle out = (case out of NextErr err \<Rightarrow> Respond (errorHandler err) | _ \<Rightarrow> out)"

section \<open>The auth controller (\<open>controllers/auth\<close>)\<close>

text \<open>
  Handlers that write to the store return the outcome together with the store
  they leave behind.
\<close>

definition sendTokenResponse ::
  "lib \<Rightarrow> env \<Rightarrow> nat \<Rightarrow> document \<Rightarrow> nat \<Rightarrow> js_error + response" where
  "sendTokenResponse L e now u statusCode =
     (case getSignedJwtToken L e now u of
        Inl err \<Rightarrow> Inl err
      | Inr token \<Rightarrow>
          Inr \<lparr>status = statusCode,
               rbody = JObj [(''success'', JBool True), (''token'', JStr token)]\<rparr>)"

definition register ::
  "lib \<Rightarrow> env \<Rightarrow> store \<Rightarrow> string \<Rightarrow> string \<Rightarrow> nat \<Rightarrow> request
     \<Rightarrow> request outcome \<times> store" where
  "register L e db new_id salt now req =
     (case create L db new_id salt now (req_body req) of
        Inl err \<Rightarrow> (NextErr err, db)
      | Inr (u, db') \<Rightarrow>
          (case sendTokenResponse L e now u 201 of
             Inl err \<Rightarrow> (NextErr err, db')
           | Inr r \<Rightarrow> (Respond r, db')))"

definition invalid_credentials :: response where
  "invalid_credentials = \<lparr>status = 401, rbody = message_body ''Invalid credentials''\<rparr>"

text \<open>Lines 57 to 63 of \<open>login\<close>: the query names \<open>email\<close> when it is truthy, else \<open>username\<close>.\<close>

definition login_query :: "body \<Rightarrow> (string \<times> string) list" where
  "login_query b =
     (case nonempty (b_email b) of
        Some em \<Rightarrow> [(''email'', em)]
      | None \<Rightarrow>
          (case nonempty (b_username b) of
             Some un \<Rightarrow> [(''username'', un)]
           | None \<Rightarrow> []))"

text \<open>
  \<open>login\<close>. The guard \<open>(!email && !username) || !password\<close> is read with the
  password's presence first, so that the branch that goes on holds the value;
  every failing case of the guard sends the same response.
\<close>

definition login :: "lib \<Rightarrow> env \<Rightarrow> store \<Rightarrow> nat \<Rightarrow> request \<Rightarrow> request outcome" where
  "login L e db now req =
     (let b = req_body req in
      case b_password b of
        None \<Rightarrow>
          Respond \<lparr>status = 400,
                   rbody = message_body ''Please provide an email or username and password''\<rparr>
      | Some pw \<Rightarrow>
          (if (\<not> truthy (b_email b) \<and> \<not> truthy (b_username b)) \<or> \<not> js_truthy pw then
             Respond \<lparr>status = 400,
                      rbody = message_body ''Please provide an email or username and password''\<rparr>
           else
             (case findOne db (login_query b) ''+password'' of
                Inl err \<Rightarrow> NextErr err
              | Inr None \<Rightarrow> Respond invalid_credentials
              | Inr (Some u) \<Rightarrow>
                  (case matchPassword L u pw of
                     Inl err \<Rightarrow> NextErr err
                   | Inr isMatch \<Rightarrow>
                       (if \<not> isMatch then Respond invalid_credentials
                        else
                          (case sendTokenResponse L e now u 200 of
                             Inl err \<Rightarrow> NextErr err
                           | Inr r \<Rightarrow> Respond r))))))"

definition getMe :: "store \<Rightarrow> request \<Rightarrow> request outcome" where
  "getMe db req =
     (case req_user req of
        None \<Rightarrow> Respond not_authorized
      | Some me \<Rightarrow>
          (case findById db (doc_id me) of
             Inl err \<Rightarrow> NextErr err
           | Inr u \<Rightarrow>
               Respond \<lparr>status = 200,
                        rbody = JObj [(''success'', JBool True),
                                      (''data'', (case u of None \<Rightarrow> JNull
                                                  | Some d \<Rightarrow> toJSON d))]\<rparr>))"

definition logout :: "request \<Rightarrow> request outcome" where
  "logout req =
     Respond \<lparr>status = 200, rbody = JObj [(''success'', JBool True), (''data'', JObj [])]\<rparr>"

section \<open>Configuration and startup\<close>

text \<open>\<open>SECURITY_CONFIG.JWT_EXPIRE\<close> of \<open>config/security.ts\<close>: \<open>process.env.JWT_EXPIRE || '30d'\<close>.\<close>

definition SECURITY_CONFIG_JWT_EXPIRE :: "env \<Rightarrow> string" where
  "SECURITY_CONFIG_JWT_EXPIRE e =
     (case nonempty (e ''JWT_EXPIRE'') of None \<Rightarrow> ''30d'' | Some d \<Rightarrow> d)"

text \<open>
  \<open>server.ts\<close>: the process connects to the database, mounts the routes and
  listens on \<open>process.env.PORT || 5000\<close>. A rejected promise (the database
  connection failing) closes the server and exits with code 1. The outcome of
  \<open>connectDB\<close> is an input of the model. Nothing else is read from the
  environment before the server listens.
\<close>

datatype process_state = Listening string | Exited nat

definition server_start :: "env \<Rightarrow> js_error + unit \<Rightarrow> process_state" where
  "server_start e connectDB =
     (case connectDB of
        Inl err \<Rightarrow> Exited 1
      | Inr ok \<Rightarrow> Listening (case nonempty (e ''PORT'') of None \<Rightarrow> ''5000'' | Some p \<Rightarrow> p))"

section \<open>The users controller (\<open>controllers/users.ts\<close>)\<close>

subsection \<open>\<open>parseInt\<close>\<close>

definition digit_val :: "nat \<Rightarrow> char \<Rightarrow> nat option" where
  "digit_val base c =
     (case map_of (zip ''0123456789abcdefABCDEF''
                       [0, 1, 2, 3, 4, 5, 6, 7, 8, 9, 10, 11, 12, 13, 14, 15,
                        10, 11, 12, 13, 14, 15]) c of
        None \<Rightarrow> None
      | Some v \<Rightarrow> if v < base then Some v else None)"

text \<open>
  \<open>parseInt(s)\<close>: leading white space, an optional sign, an optional \<open>0x\<close> prefix,
  then the longest run of digits; \<open>None\<close> is \<open>NaN\<close>. The result is the exact integer:
  the source's number is a double, which agrees with it below \<open>2^53\<close> in size and
  rounds beyond, a range the model does not follow.
\<close>

definition parseInt :: "string \<Rightarrow> int option" where
  "parseInt s =
     (let t = dropWhile is_space s;
          neg = (t \<noteq> [] \<and> hd t = CHR ''-'');
          r = (if t \<noteq> [] \<and> (hd t = CHR ''-'' \<or> hd t = CHR ''+'') then tl t else t);
          hex = (length r \<ge> 2 \<and> hd r = CHR ''0'' \<and> (r ! 1 = CHR ''x'' \<or> r ! 1 = CHR ''X''));
          base = (if hex then 16 else 10);
          ds = takeWhile (\<lambda>c. digit_val base c \<noteq> None) (if hex then drop 2 r else r);
          n = foldl (\<lambda>a c. a * int base
                           + int (case digit_val base c of None \<Rightarrow> 0 | Some v \<Rightarrow> v)) 0 ds
      in if ds = [] then None else Some (if neg then - n else n))"

text \<open>\<open>parseInt(req.query[k] as string) || d\<close>: \<open>NaN\<close> and 0 give \<open>d\<close>.\<close>

definition int_param :: "(string \<times> string) list \<Rightarrow> string \<Rightarrow> int \<Rightarrow> int" where
  "int_param q k d =
     (case map_of q k of
        None \<Rightarrow> d
      | Some s \<Rightarrow> (case parseInt s of None \<Rightarrow> d | Some n \<Rightarrow> if n = 0 then d else n))"

subsection \<open>Filtering and sorting\<close>

definition excludedParams :: "string list" where
  "excludedParams = [''page'', ''limit'', ''sort'', ''fields'']"

text \<open>
  A \<open>$regex\<close> filter on a path of the schema that holds no string (\<open>_id\<close>,
  \<open>createdAt\<close>, \<open>__v\<close>) makes the query throw while the filter is cast; the keys
  are cast from the last to the first.
\<close>

definition filter_cast_error :: "lib \<Rightarrow> (string \<times> string) list \<Rightarrow> js_error option" where
  "filter_cast_error L queryObj =
     map_option (\<lambda>(k, v). regex_cast_error L k)
       (find (\<lambda>(k, v). k \<in> set [''_id'', ''createdAt'', ''__v'']) (rev queryObj))"

text \<open>
  A user meets the filter \<open>{k: {$regex: v, $options: 'i'}}\<close> when its string at path
  \<open>k\<close> matches \<open>v\<close>; a path that is not in the schema matches nothing.
\<close>

definition regex_matches :: "lib \<Rightarrow> (string \<times> string) list \<Rightarrow> user \<Rightarrow> bool" where
  "regex_matches L queryObj u =
     list_all (\<lambda>(k, v). case str_field u k of None \<Rightarrow> False
                                            | Some s \<Rightarrow> regex_test L v s) queryObj"

text \<open>\<open>{...obj, [k]: v}\<close>: an existing key keeps its place and takes the new value.\<close>

fun obj_set :: "(string \<times> 'a) list \<Rightarrow> string \<Rightarrow> 'a \<Rightarrow> (string \<times> 'a) list" where
  "obj_set [] k v = [(k, v)]"
| "obj_set ((k', v') # kvs) k v =
     (if k' = k then (k, v) # kvs else (k', v') # obj_set kvs k v)"

definition sort_spec :: "(string \<times> string) list \<Rightarrow> (string \<times> int) list" where
  "sort_spec q =
     (case nonempty (map_of q ''sort'') of
        None \<Rightarrow> [(''name'', 1)]
      | Some s \<Rightarrow>
          foldl (\<lambda>sortBy field.
                   if startsWith field ''-'' then obj_set sortBy (drop 1 field) (- 1)
                   else obj_set sortBy field 1)
                [] (split CHR '','' s))"

text \<open>
  The database's order on the values of one path: a missing value first, then
  numbers by size, then strings byte by byte.
\<close>

datatype comparison = LT | EQ | GT

fun str_cmp :: "string \<Rightarrow> string \<Rightarrow> comparison" where
  "str_cmp [] [] = EQ"
| "str_cmp [] (y # ys) = LT"
| "str_cmp (x # xs) [] = GT"
| "str_cmp (x # xs) (y # ys) =
     (if (of_char x :: nat) < of_char y then LT
      else if (of_char y :: nat) < of_char x then GT
      else str_cmp xs ys)"

definition path_cmp :: "string \<Rightarrow> user \<Rightarrow> user \<Rightarrow> comparison" where
  "path_cmp k a b =
     (if k = ''createdAt'' then
        (if createdAt a < createdAt b then LT
         else if createdAt b < createdAt a then GT else EQ)
      else if k = ''_id'' then str_cmp (uid a) (uid b)
      else
        (case (str_field a k, str_field b k) of
           (None, None) \<Rightarrow> EQ
         | (None, Some y) \<Rightarrow> LT
         | (Some x, None) \<Rightarrow> GT
         | (Some x, Some y) \<Rightarrow> str_cmp x y))"

fun sort_cmp :: "(string \<times> int) list \<Rightarrow> user \<Rightarrow> user \<Rightarrow> comparison" where
  "sort_cmp [] a b = EQ"
| "sort_cmp ((k, dir) # ks) a b =
     (case path_cmp k a b of
        EQ \<Rightarrow> sort_cmp ks a b
      | LT \<Rightarrow> if dir < 0 then GT else LT
      | GT \<Rightarrow> if dir < 0 then LT else GT)"

fun insert_by :: "('a \<Rightarrow> 'a \<Rightarrow> comparison) \<Rightarrow> 'a \<Rightarrow> 'a list \<Rightarrow> 'a list" where
  "insert_by cmp x [] = [x]"
| "insert_by cmp x (y # ys) =
     (if cmp x y = LT then x # y # ys else y # insert_by cmp x ys)"

definition sort_by :: "('a \<Rightarrow> 'a \<Rightarrow> comparison) \<Rightarrow> 'a list \<Rightarrow> 'a list" where
  "sort_by cmp xs = foldl (\<lambda>acc x. insert_by cmp x acc) [] xs"

subsection \<open>The handlers\<close>

text \<open>
  \<open>User.find(queryObj).select(select).sort(sortBy).skip(startIndex).limit(limit)\<close>.
  Building the query, \<open>.sort\<close> throws on an empty sort key. Running it, the
  database refuses a projection that mixes inclusion and exclusion and a
  negative skip, and reads a negative limit as its absolute value.
\<close>

definition find_page ::
  "lib \<Rightarrow> store \<Rightarrow> (string \<times> string) list \<Rightarrow> string \<Rightarrow> (string \<times> int) list \<Rightarrow> int \<Rightarrow> int
     \<Rightarrow> js_error + document list" where
  "find_page L db queryObj select sortBy startIndex limit =
     (if list_ex (\<lambda>(k, dir). k = []) sortBy then
        Inl (Error (''Invalid field '' @ [CHR 0x22, CHR 0x22] @ '' passed to sort()''))
      else
        (case select_paths select of
           Inl err \<Rightarrow> Inl err
         | Inr ps \<Rightarrow>
             (if startIndex < 0 then
                Inl (MongoServerError 51024 ''BSON field skip value must be >= 0'')
              else
                Inr (map (\<lambda>u. \<lparr>doc = u, selected = ps\<rparr>)
                       (take (nat \<bar>limit\<bar>)
                          (drop (nat startIndex)
                             (sort_by (sort_cmp sortBy)
                                (filter (regex_matches L queryObj) db))))))))"

definition page_json :: "int \<Rightarrow> int \<Rightarrow> json" where
  "page_json pg lim = JObj [(''page'', JNum pg), (''limit'', JNum lim)]"

definition getUsers :: "lib \<Rightarrow> store \<Rightarrow> request \<Rightarrow> request outcome" where
  "getUsers L db req =
     (let q = req_query req;
          queryObj = filter (\<lambda>(param, v). param \<notin> set excludedParams) q;
          page = int_param q ''page'' 1;
          limit = int_param q ''limit'' 10;
          startIndex = (page - 1) * limit;
          endIndex = page * limit;
          total = int (length (filter (regex_matches L queryObj) db));
          sortBy = sort_spec q;
          select = (case nonempty (map_of q ''fields'') of
                      None \<Rightarrow> []
                    | Some f \<Rightarrow> join '' '' (split CHR '','' f))
      in case filter_cast_error L queryObj of
           Some err \<Rightarrow> NextErr err
         | None \<Rightarrow>
        (case find_page L db queryObj select sortBy startIndex limit of
           Inl err \<Rightarrow> NextErr err
         | Inr users \<Rightarrow>
             Respond
               \<lparr>status = 200,
                rbody = JObj
                  [(''success'', JBool True),
                   (''count'', JNum (int (length users))),
                   (''pagination'',
                      JObj ((if endIndex < total then [(''next'', page_json (page + 1) limit)]
                             else [])
                            @ (if startIndex > 0 then [(''prev'', page_json (page - 1) limit)]
                               else []))),
                   (''totalPages'', JNum (- ((- total) div limit))),
                   (''currentPage'', JNum page),
                   (''data'', JArr (map toJSON users))]\<rparr>))"

definition user_not_found :: "string \<Rightarrow> response" where
  "user_not_found i =
     \<lparr>status = 404, rbody = message_body (''User not found with id of '' @ i)\<rparr>"

definition data_response :: "nat \<Rightarrow> json \<Rightarrow> response" where
  "data_response st d = \<lparr>status = st, rbody = JObj [(''success'', JBool True), (''data'', d)]\<rparr>"

definition getUser :: "store \<Rightarrow> request \<Rightarrow> request outcome" where
  "getUser db req =
     (case findById db (Some (params_id req)) of
        Inl err \<Rightarrow> NextErr err
      | Inr None \<Rightarrow> Respond (user_not_found (params_id req))
      | Inr (Some u) \<Rightarrow> Respond (data_response 200 (toJSON u)))"

definition createUser ::
  "lib \<Rightarrow> store \<Rightarrow> string \<Rightarrow> string \<Rightarrow> nat \<Rightarrow> request \<Rightarrow> request outcome \<times> store" where
  "createUser L db new_id salt now req =
     (case create L db new_id salt now (req_body req) of
        Inl err \<Rightarrow> (NextErr err, db)
      | Inr (u, db') \<Rightarrow> (Respond (data_response 201 (toJSON u)), db'))"

definition updateUser :: "lib \<Rightarrow> store \<Rightarrow> request \<Rightarrow> request outcome \<times> store" where
  "updateUser L db req =
     (case findByIdAndUpdate L db (params_id req) (req_body req) of
        Inl err \<Rightarrow> (NextErr err, db)
      | Inr (None, db') \<Rightarrow> (Respond (user_not_found (params_id req)), db')
      | Inr (Some u, db') \<Rightarrow> (Respond (data_response 200 (toJSON u)), db'))"

definition deleteUser :: "store \<Rightarrow> request \<Rightarrow> request outcome \<times> store" where
  "deleteUser db req =
     (case findByIdAndDelete db (params_id req) of
        Inl err \<Rightarrow> (NextErr err, db)
      | Inr (None, db') \<Rightarrow> (Respond (user_not_found (params_id req)), db')
      | Inr (Some u, db') \<Rightarrow> (Respond (data_response 200 (JObj [])), db'))"

section \<open>The users router (\<open>routes/users\<close>)\<close>

datatype users_route = GET_users | GET_users_id | POST_users | PUT_users_id | DELETE_users_id

definition users_handler ::
  "users_route \<Rightarrow> lib \<Rightarrow> store \<Rightarrow> string \<Rightarrow> string \<Rightarrow> nat \<Rightarrow> request
     \<Rightarrow> request outcome \<times> store" where
  "users_handler r L db new_id salt now req =
     (case r of
        GET_users \<Rightarrow> (getUsers L db req, db)
      | GET_users_id \<Rightarrow> (getUser db req, db)
      | POST_users \<Rightarrow> createUser L db new_id salt now req
      | PUT_users_id \<Rightarrow> updateUser L db req
      | DELETE_users_id \<Rightarrow> deleteUser db req)"

text \<open>
  \<open>router.use(protect); router.use(authorize('administrator'))\<close>, then the route's
  handler: each stage runs only when the one before called \<open>next()\<close>.
\<close>

definition users_router ::
  "users_route \<Rightarrow> lib \<Rightarrow> env \<Rightarrow> store \<Rightarrow> string \<Rightarrow> string \<Rightarrow> nat \<Rightarrow> request
     \<Rightarrow> request outcome \<times> store" where
  "users_router r L e db new_id salt now req =
     (case protect L e db now req of
        Next req1 \<Rightarrow>
          (case authorize [''administrator''] req1 of
             Next req2 \<Rightarrow> users_handler r L db new_id salt now req2
           | out \<Rightarrow> (out, db))
      | out \<Rightarrow> (out, db))"

section \<open>The stores the program builds\<close>

text \<open>
  The collection starts empty and changes only through the three writes of the
  model: \<open>create\<close> (register, create user, the seeding script),
  \<open>findByIdAndUpdate\<close> and \<open>findByIdAndDelete\<close>.
\<close>

inductive reachable :: "lib \<Rightarrow> store \<Rightarrow> bool" for L :: lib where
  initial: "reachable L []"
| created: "reachable L db \<Longrightarrow> create L db new_id salt now b = Inr (d, db') \<Longrightarrow> reachable L db'"
| updated: "reachable L db \<Longrightarrow> findByIdAndUpdate L db i b = Inr (r, db') \<Longrightarrow> reachable L db'"
| deleted: "reachable L db \<Longrightarrow> findByIdAndDelete db i = Inr (r, db') \<Longrightarrow> reachable L db'"

section \<open>A small instance of the libraries\<close>

text \<open>
  To run the model on concrete requests, the library parameters are instantiated
  with stand-ins that have the interface of the real ones and none of their
  cryptography: a token is the secret, a colon and the subject's id; a stored
  password is the salt followed by the plaintext; an address matches when it
  holds an at sign; a pattern matches the strings that start with it.
\<close>

definition demo_sign :: "string option \<Rightarrow> string \<Rightarrow> string option \<Rightarrow> nat \<Rightarrow> js_error + string" where
  "demo_sign i secret expiresIn now =
     (case i of
        None \<Rightarrow> Inl (Error ''payload is required'')
      | Some s \<Rightarrow> Inr (secret @ '':'' @ s))"

definition demo_verify :: "string \<Rightarrow> string \<Rightarrow> nat \<Rightarrow> js_error + payload" where
  "demo_verify token secret now =
     (if take (length secret + 1) token = secret @ '':''
      then Inr \<lparr>pl_id = Some (drop (length secret + 1) token), pl_iat = 0, pl_exp = None\<rparr>
      else Inl \<lparr>err_name = ''JsonWebTokenError'', err_message = ''invalid signature'',
                err_status = None, err_code = None, err_errors = None\<rparr>)"

definition demo_lib :: lib where
  "demo_lib =
     \<lparr>jwt_sign = demo_sign,
      jwt_verify = demo_verify,
      bcrypt_hash = (\<lambda>plain salt. salt @ plain),
      bcrypt_compare = (\<lambda>candidate stored. drop 4 stored = candidate),
      email_match = (\<lambda>s. CHR ''@'' \<in> set s),
      regex_test = (\<lambda>pattern s. take (length pattern) s = pattern),
      cast_message = (\<lambda>v path. ''Cast to string failed at path '' @ path),
      regex_cast_error = (\<lambda>path. Error (''Cannot use $regex on '' @ path))\<rparr>"

text \<open>A store of two users, an environment with a secret, and an empty request.\<close>

definition alice :: user where
  "alice = \<lparr>uid = ''64b000000000000000000001'', name = ''Alice'', username = ''alice'',
            email = ''alice@x.com'', role = Administrator, password = ''saltWonderland1'',
            phone = None, address = None, createdAt = 1000\<rparr>"

definition bob :: user where
  "bob = \<lparr>uid = ''64b000000000000000000002'', name = ''Bob'', username = ''bob'',
          email = ''bob@x.com'', role = Client, password = ''saltBuilder22'',
          phone = Some ''0912'', address = None, createdAt = 2000\<rparr>"

definition demo_db :: store where
  "demo_db = [alice, bob]"

definition demo_env :: env where
  "demo_env = [''JWT_SECRET'' \<mapsto> ''s3cret'', ''JWT_EXPIRE'' \<mapsto> ''7d'']"

definition no_body :: body where
  "no_body = \<lparr>b_name = None, b_username = None, b_email = None, b_password = None,
              b_role = None, b_phone = None, b_address = None\<rparr>"

definition no_request :: request where
  "no_request = \<lparr>authorization = None, req_user = None, req_body = no_body,
                 req_query = [], params_id = []\<rparr>"

text \<open>The registrations that produce the two users.\<close>

definition alice_body :: body where
  "alice_body = \<lparr>b_name = Some ''Alice'', b_username = Some ''alice'',
     b_email = Some ''alice@x.com'', b_password = Some (JStr ''Wonderland1''),
     b_role = Some ''administrator'', b_phone = None, b_address = None\<rparr>"

definition bob_body :: body where
  "bob_body = \<lparr>b_name = Some ''Bob'', b_username = Some '' bob'',
     b_email = Some ''bob@x.com'', b_password = Some (JStr ''Builder22''),
     b_role = None, b_phone = Some ''0912'', b_address = None\<rparr>"

text \<open>An environment that sets no token duration, and one that sets no secret.\<close>

definition env_without_expire :: env where
  "env_without_expire = [''JWT_SECRET'' \<mapsto> ''s3cret'']"

definition env_without_secret :: env where
  "env_without_secret = [''PORT'' \<mapsto> ''8080'', ''JWT_EXPIRE'' \<mapsto> ''7d'']"

text \<open>A third registration, and the user it stores with the salt \<open>pepr\<close> at instant 3000.\<close>

definition carol_body :: body where
  "carol_body = \<lparr>b_name = Some ''Carol'', b_username = Some ''carol'',
     b_email = Some ''carol@x.com'', b_password = Some (JStr ''Looking9''),
     b_role = None, b_phone = None, b_address = None\<rparr>"

definition carol :: user where
  "carol = \<lparr>uid = ''64b000000000000000000003'', name = ''Carol'', username = ''carol'',
            email = ''carol@x.com'', role = Client, password = ''peprLooking9'',
            phone = None, address = None, createdAt = 3000\<rparr>"

section \<open>Supporting lemmas\<close>

lemma find_SomeD: "find P xs = Some x \<Longrightarrow> x \<in> set xs \<and> P x"
  by (induction xs) (auto split: if_splits)

text \<open>When \<open>protect\<close> calls \<open>next()\<close>, it has attached a user of the store.\<close>

lemma protect_next_user:
  assumes "protect L e db now req = Next req1"
  shows "\<exists>u. u \<in> set db \<and> req1 = req\<lparr>req_user := Some \<lparr>doc = u, selected = default_paths\<rparr>\<rparr>"
  using assms
  by (auto simp: protect_def protect_try_def findById_def
           split: option.splits if_splits sum.splits dest: find_SomeD)

lemma select_plus_password: "select_paths ''+password'' = Inr schema_paths"
  by (simp add: select_paths_def select_words_def is_space_def plus_paths_def
                minus_paths_def bare_paths_def startsWith_def schema_paths_def)

lemma findOne_plus_password:
  "findOne db q ''+password'' =
     Inr (map_option (\<lambda>u. \<lparr>doc = u, selected = schema_paths\<rparr>)
            (find (matches (cast_filter q)) db))"
  by (simp add: findOne_def select_plus_password)

lemma cast_filter_email: "cast_filter [(''email'', em)] = [(''email'', em)]"
  by (simp add: cast_filter_def)

lemma matchPassword_selected:
  "matchPassword L \<lparr>doc = u, selected = schema_paths\<rparr> (JStr pw) =
     Inr (bcrypt_compare L pw (password u))"
  by (simp add: matchPassword_def doc_password_def schema_paths_def)

text \<open>A candidate that is no string makes \<open>matchPassword\<close> throw, whatever is stored.\<close>

lemma matchPassword_not_a_string:
  assumes "js_typeof v \<noteq> ''string''"
  shows "matchPassword L \<lparr>doc = u, selected = schema_paths\<rparr> v =
           Inl (Error (''Illegal arguments: '' @ js_typeof v @ '', string''))"
  using assms
  by (cases v) (simp_all add: matchPassword_def doc_password_def schema_paths_def)

text \<open>\<open>login\<close> past its guard: the two outcomes of the lookup.\<close>

lemma login_not_found:
  assumes "truthy (b_email (req_body req)) \<or> truthy (b_username (req_body req))"
      and "b_password (req_body req) = Some pw" and "js_truthy pw"
      and "find (matches (cast_filter (login_query (req_body req)))) db = None"
  shows "login L e db now req = Respond invalid_credentials"
  using assms by (auto simp: login_def Let_def findOne_plus_password)

lemma login_found:
  assumes "truthy (b_email (req_body req)) \<or> truthy (b_username (req_body req))"
      and "b_password (req_body req) = Some pw" and "js_truthy pw"
      and "find (matches (cast_filter (login_query (req_body req)))) db = Some u"
  shows "login L e db now req =
           (case matchPassword L \<lparr>doc = u, selected = schema_paths\<rparr> pw of
              Inl err \<Rightarrow> NextErr err
            | Inr isMatch \<Rightarrow>
                (if \<not> isMatch then Respond invalid_credentials
                 else (case sendTokenResponse L e now \<lparr>doc = u, selected = schema_paths\<rparr> 200 of
                         Inl err \<Rightarrow> NextErr err
                       | Inr r \<Rightarrow> Respond r)))"
  using assms by (auto simp: login_def Let_def findOne_plus_password)

text \<open>
  With a password that is a non-empty string, the branch of \<open>login\<close> for a user
  that is not found and the branch for a password that does not match send the
  same 401.
\<close>

lemma login_string_password_uniform:
  assumes "truthy (b_email (req_body req1)) \<or> truthy (b_username (req_body req1))"
      and "b_password (req_body req1) = Some (JStr pw1)" and "pw1 \<noteq> []"
      and "find (matches (cast_filter (login_query (req_body req1)))) db = None"
      and "truthy (b_email (req_body req2)) \<or> truthy (b_username (req_body req2))"
      and "b_password (req_body req2) = Some (JStr pw)" and "pw \<noteq> []"
      and "find (matches (cast_filter (login_query (req_body req2)))) db = Some u"
      and "\<not> bcrypt_compare L pw (password u)"
  shows "login L e db now req1 = Respond invalid_credentials
         \<and> login L e db now req2 = Respond invalid_credentials"
proof -
  have 1: "login L e db now req1 = Respond invalid_credentials"
    using assms(1-4)
    by (auto simp: login_def Let_def findOne_plus_password)
  have 2: "login L e db now req2 = Respond invalid_credentials"
    using assms(5-9)
    by (auto simp: login_def Let_def findOne_plus_password matchPassword_selected)
  show ?thesis
    using 1 2 by simp
qed

lemma demo_cast_alice:
  "cast_object_id ''64b000000000000000000001'' = Some ''64b000000000000000000001''"
  by (simp add: cast_object_id_def hex_lower_def)

lemma demo_cast_bob:
  "cast_object_id ''64b000000000000000000002'' = Some ''64b000000000000000000002''"
  by (simp add: cast_object_id_def hex_lower_def)

lemma errorHandler_duplicate_key:
  "errorHandler duplicate_key =
     \<lparr>status = 400,
      rbody = JObj [(''success'', JBool False), (''error'', JStr ''Duplicate field value entered'')]\<rparr>"
  by (simp add: errorHandler_def duplicate_key_def MongoServerError_def)

lemma errorHandler_ValidationError:
  "errorHandler (ValidationError es) =
     \<lparr>status = 400,
      rbody = JObj [(''success'', JBool False),
                    (''error'', JStr (if join '', '' (map snd es) = [] then ''Server Error''
                                      else join '', '' (map snd es)))]\<rparr>"
  by (simp add: errorHandler_def ValidationError_def)

text \<open>A body that passes validation holds the four required paths.\<close>

lemma validate_new_Nil_fields:
  assumes "validate_new L b = []"
  shows "\<exists>n un em pw. b_name b = Some n \<and> b_username b = Some un \<and> b_email b = Some em
            \<and> castString (b_password b) = Cast pw"
  using assms
  by (auto simp: validate_new_def check_name_def check_username_def check_email_def
                 check_password_def nonempty_def
           split: option.splits if_splits cast_result.splits)

text \<open>
  \<open>create\<close> with the username of a stored user whose username is trimmed: the
  validators decide between a \<open>ValidationError\<close> and the duplicate-key error.
\<close>

lemma create_duplicate_username:
  assumes "u \<in> set db" and "trim (username u) = username u"
      and "b_username b = Some (username u)"
  shows "create L db new_id salt now b =
           (if validate_new L b = [] then Inl duplicate_key
            else Inl (ValidationError (validate_new L b)))"
proof (cases "validate_new L b = []")
  case True
  from validate_new_Nil_fields [OF True] assms(3) obtain n em pw where
    f: "b_name b = Some n" "b_username b = Some (username u)" "b_email b = Some em"
       "castString (b_password b) = Cast pw"
    by auto
  have "collides (pre_save L salt True
          \<lparr>uid = new_id, name = trim n, username = trim (username u), email = em,
           role = (case b_role b of None \<Rightarrow> Client
                   | Some r \<Rightarrow> (case parse_role r of None \<Rightarrow> Client | Some x \<Rightarrow> x)),
           password = pw, phone = b_phone b, address = b_address b, createdAt = now\<rparr>) db"
    using assms(1,2) by (auto simp: collides_def pre_save_def list_ex_iff)
  then show ?thesis
    using True f by (simp add: create_def Let_def)
next
  case False
  then show ?thesis
    by (simp add: create_def Let_def)
qed

subsection \<open>Stored usernames are trimmed\<close>

lemma last_dropWhile: "dropWhile P xs \<noteq> [] \<Longrightarrow> last (dropWhile P xs) = last xs"
  by (induction xs) (auto split: if_splits)

lemma trim_idem: "trim (trim s) = trim s"
proof -
  define t where "t = dropWhile is_space s"
  define r where "r = dropWhile is_space (rev t)"
  have tr: "trim s = rev r"
    by (simp add: trim_def t_def r_def)
  have a: "dropWhile is_space (rev r) = rev r"
  proof (cases "r = []")
    case True
    then show ?thesis by simp
  next
    case False
    then have l: "last r = last (rev t)"
      unfolding r_def by (rule last_dropWhile)
    from False have "t \<noteq> []"
      by (auto simp: r_def)
    then have "\<not> is_space (hd t)"
      unfolding t_def by (rule hd_dropWhile)
    moreover have "hd (rev r) = hd t"
      using False \<open>t \<noteq> []\<close> l by (simp add: hd_rev last_rev)
    ultimately show ?thesis
      using False by (cases "rev r") simp_all
  qed
  have b: "dropWhile is_space r = r"
    by (simp add: r_def)
  have "trim (rev r) = rev r"
    by (simp add: trim_def a b)
  then show ?thesis
    by (simp add: tr)
qed

lemma create_username_trimmed:
  assumes "create L db new_id salt now b = Inr (d, db')"
  shows "trim (username (doc d)) = username (doc d) \<and> db' = db @ [doc d]"
  using assms
  by (auto simp: create_def Let_def pre_save_def trim_idem
           split: if_splits option.splits cast_result.splits)

lemma apply_update_username_trimmed:
  assumes "trim (username u) = username u"
  shows "trim (username (apply_update b u)) = username (apply_update b u)"
  using assms by (simp add: apply_update_def trim_idem split: option.splits)

lemma findByIdAndUpdate_usernames_trimmed:
  assumes "findByIdAndUpdate L db i b = Inr (r, db')"
      and "\<forall>u \<in> set db. trim (username u) = username u"
  shows "\<forall>u \<in> set db'. trim (username u) = username u"
proof -
  from assms(1) have "db' = db \<or> (\<exists>oid u. u \<in> set db
        \<and> db' = map (\<lambda>v. if uid v = oid then apply_update b u else v) db)"
    by (auto simp: findByIdAndUpdate_def Let_def split: option.splits if_splits
             dest: find_SomeD)
  then show ?thesis
    using assms(2) by (auto simp: apply_update_username_trimmed)
qed

lemma findByIdAndDelete_subset:
  assumes "findByIdAndDelete db i = Inr (r, db')"
  shows "set db' \<subseteq> set db"
  using assms by (auto simp: findByIdAndDelete_def split: option.splits)

lemma reachable_usernames_trimmed:
  assumes "reachable L db"
  shows "\<forall>u \<in> set db. trim (username u) = username u"
  using assms
proof (induction rule: reachable.induct)
  case initial
  then show ?case by simp
next
  case (created db new_id salt now b d db')
  from create_username_trimmed [OF created(2)] created(3) show ?case
    by auto
next
  case (updated db i b r db')
  from findByIdAndUpdate_usernames_trimmed [OF updated(2) updated(3)] show ?case .
next
  case (deleted db i r db')
  from findByIdAndDelete_subset [OF deleted(2)] deleted(3) show ?case
    by blast
qed

subsection \<open>The example store is one the program builds\<close>

lemma trim_examples: "trim ''Alice'' = ''Alice''" "trim ''alice'' = ''alice''"
  "trim ''Bob'' = ''Bob''" "trim '' bob'' = ''bob''" "trim ''bob'' = ''bob''"
  "trim ''Robert'' = ''Robert''" "trim ''Carol'' = ''Carol''" "trim ''carol'' = ''carol''"
  by (simp_all add: trim_def is_space_def)

lemma demo_db_reachable: "reachable demo_lib demo_db"
proof -
  have va: "validate_new demo_lib alice_body = []"
    by (simp add: validate_new_def alice_body_def check_name_def check_username_def
                  check_email_def check_role_def check_password_def check_phone_def
                  check_address_def nonempty_def trim_examples parse_role_def demo_lib_def)
  have ca: "create demo_lib [] ''64b000000000000000000001'' ''salt'' 1000 alice_body =
              Inr (\<lparr>doc = alice, selected = schema_paths\<rparr>, [alice])"
    unfolding create_def Let_def va
    by (simp add: alice_body_def pre_save_def trim_examples parse_role_def collides_def
                  demo_lib_def alice_def)
  have vb: "validate_new demo_lib bob_body = []"
    by (simp add: validate_new_def bob_body_def check_name_def check_username_def
                  check_email_def check_role_def check_password_def check_phone_def
                  check_address_def nonempty_def trim_examples parse_role_def demo_lib_def)
  have cb: "create demo_lib [alice] ''64b000000000000000000002'' ''salt'' 2000 bob_body =
              Inr (\<lparr>doc = bob, selected = schema_paths\<rparr>, [alice, bob])"
    unfolding create_def Let_def vb
    by (simp add: bob_body_def pre_save_def trim_examples parse_role_def collides_def
                  demo_lib_def alice_def bob_def)
  from reachable.created [OF reachable.created [OF reachable.initial ca] cb]
  show ?thesis
    by (simp add: demo_db_def)
qed

section \<open>The Authentication Gate rejects what it cannot verify\<close>

text \<open>
  Claim C1. A request to a protected route whose \<open>Authorization\<close> header yields no
  bearer token, or yields a token that \<open>jwt.verify\<close> rejects with any error
  (malformed, bad signature, expired), is answered by \<open>protect\<close> with HTTP 401 and
  the one message \<open>Not authorized to access this route\<close>, whatever the error was;
  \<open>next()\<close> is not called, so on every route of the users router the response is
  that same 401 and the handler does not run (the store is returned untouched).
\<close>

theorem protect_rejects_without_verified_token:
  assumes "\<not> truthy (bearer_token req)
           \<or> (\<exists>token secret err. bearer_token req = Some token
                 \<and> nonempty (e ''JWT_SECRET'') = Some secret
                 \<and> jwt_verify L token secret now = Inl err)"
  shows "protect L e db now req =
           Respond \<lparr>status = 401,
                    rbody = JObj [(''success'', JBool False),
                                  (''message'', JStr ''Not authorized to access this route'')]\<rparr>
         \<and> users_router r L e db new_id salt now req =
           (Respond \<lparr>status = 401,
                    rbody = JObj [(''success'', JBool False),
                                  (''message'', JStr ''Not authorized to access this route'')]\<rparr>, db)"
proof -
  have "protect L e db now req = Respond not_authorized"
    using assms
    by (auto simp: protect_def protect_try_def truthy_def split: option.splits)
  then show ?thesis
    by (simp add: users_router_def not_authorized_def message_body_def)
qed

text \<open>
  The theorem at a request with a \<open>Basic\<close> header (no bearer token) and at a
  request whose bearer token fails verification.
\<close>

theorem protect_rejects_without_verified_token_witness:
  "protect demo_lib demo_env demo_db 5 (no_request\<lparr>authorization := Some ''Basic abc''\<rparr>) =
     Respond \<lparr>status = 401,
              rbody = JObj [(''success'', JBool False),
                            (''message'', JStr ''Not authorized to access this route'')]\<rparr>
   \<and> jwt_verify demo_lib ''forged'' ''s3cret'' 5 =
       Inl \<lparr>err_name = ''JsonWebTokenError'', err_message = ''invalid signature'',
            err_status = None, err_code = None, err_errors = None\<rparr>
   \<and> users_router DELETE_users_id demo_lib demo_env demo_db [] [] 5
        (no_request\<lparr>authorization := Some ''Bearer forged''\<rparr>) =
       (Respond \<lparr>status = 401,
              rbody = JObj [(''success'', JBool False),
                            (''message'', JStr ''Not authorized to access this route'')]\<rparr>, demo_db)"
proof -
  have a: "\<not> truthy (bearer_token (no_request\<lparr>authorization := Some ''Basic abc''\<rparr>))"
    by (simp add: bearer_token_def no_request_def startsWith_def truthy_def)
  have b: "bearer_token (no_request\<lparr>authorization := Some ''Bearer forged''\<rparr>) = Some ''forged''"
    by (simp add: bearer_token_def no_request_def startsWith_def split_def at_index_def)
  have c: "nonempty (demo_env ''JWT_SECRET'') = Some ''s3cret''"
    by (simp add: demo_env_def nonempty_def)
  have d: "jwt_verify demo_lib ''forged'' ''s3cret'' 5 =
       Inl \<lparr>err_name = ''JsonWebTokenError'', err_message = ''invalid signature'',
            err_status = None, err_code = None, err_errors = None\<rparr>"
    by (simp add: demo_lib_def demo_verify_def)
  show ?thesis
    using protect_rejects_without_verified_token
            [of "no_request\<lparr>authorization := Some ''Basic abc''\<rparr>" demo_env demo_lib 5 demo_db]
          protect_rejects_without_verified_token
            [of "no_request\<lparr>authorization := Some ''Bearer forged''\<rparr>" demo_env demo_lib 5
                demo_db DELETE_users_id "[]" "[]"]
          a b c d
    by blast
qed

section \<open>Login and the existence of an identifier\<close>

text \<open>
  Claim C2 says that a login with a nonexistent identifier and a login with an
  existing identifier and a wrong password get the same response, HTTP 401
  \<open>Invalid credentials\<close>, so that the response does not reveal whether the
  identifier exists. \<open>login\<close> sends that 401 in both branches, but it hands the
  body's \<open>password\<close> to \<open>matchPassword\<close> as it came, and \<open>bcrypt.compare\<close> throws on
  a candidate that is no string; the throw is reached only when the user
  exists. With the number \<open>12345678\<close> as password on the example store, the
  request with Bob's email ends in the error handler with HTTP 500
  \<open>Illegal arguments: number, string\<close>, and the request with an email nobody has
  gets the 401.
\<close>

theorem login_number_password_reveals_identifier:
  "settle (login L e demo_db now
     (no_request\<lparr>req_body := no_body\<lparr>b_email := Some ''bob@x.com'',
                                      b_password := Some (JNum 12345678)\<rparr>\<rparr>)) =
     Respond \<lparr>status = 500,
              rbody = JObj [(''success'', JBool False),
                            (''error'', JStr ''Illegal arguments: number, string'')]\<rparr>
   \<and> settle (login L e demo_db now
     (no_request\<lparr>req_body := no_body\<lparr>b_email := Some ''nobody@x.com'',
                                      b_password := Some (JNum 12345678)\<rparr>\<rparr>)) =
     Respond \<lparr>status = 401,
              rbody = JObj [(''success'', JBool False),
                            (''message'', JStr ''Invalid credentials'')]\<rparr>"
proof -
  let ?known = "no_request\<lparr>req_body := no_body\<lparr>b_email := Some ''bob@x.com'',
                                      b_password := Some (JNum 12345678)\<rparr>\<rparr>"
  let ?unknown = "no_request\<lparr>req_body := no_body\<lparr>b_email := Some ''nobody@x.com'',
                                      b_password := Some (JNum 12345678)\<rparr>\<rparr>"
  have f1: "find (matches (cast_filter (login_query (req_body ?known)))) demo_db = Some bob"
    by (simp add: login_query_def nonempty_def no_request_def no_body_def cast_filter_def
                  matches_def str_field_def demo_db_def alice_def bob_def)
  have f2: "find (matches (cast_filter (login_query (req_body ?unknown)))) demo_db = None"
    by (simp add: login_query_def nonempty_def no_request_def no_body_def cast_filter_def
                  matches_def str_field_def demo_db_def alice_def bob_def)
  have m: "matchPassword L \<lparr>doc = bob, selected = schema_paths\<rparr> (JNum 12345678) =
             Inl (Error ''Illegal arguments: number, string'')"
    using matchPassword_not_a_string [of "JNum 12345678" L bob] by simp
  have g1: "truthy (b_email (req_body ?known)) \<or> truthy (b_username (req_body ?known))"
           "b_password (req_body ?known) = Some (JNum 12345678)"
    by (simp_all add: truthy_def no_request_def no_body_def)
  have g2: "truthy (b_email (req_body ?unknown)) \<or> truthy (b_username (req_body ?unknown))"
           "b_password (req_body ?unknown) = Some (JNum 12345678)"
    by (simp_all add: truthy_def no_request_def no_body_def)
  have 1: "login L e demo_db now ?known = NextErr (Error ''Illegal arguments: number, string'')"
    using login_found [OF g1 _ f1, of L e now] by (simp add: m)
  have 2: "login L e demo_db now ?unknown = Respond invalid_credentials"
    using login_not_found [OF g2 _ f2, of L e now] by simp
  have h: "errorHandler (Error ''Illegal arguments: number, string'') =
             \<lparr>status = 500,
              rbody = JObj [(''success'', JBool False),
                            (''error'', JStr ''Illegal arguments: number, string'')]\<rparr>"
    by (simp add: errorHandler_def Error_def)
  show ?thesis
    unfolding 1 2
    by (simp add: settle_def h invalid_credentials_def message_body_def)
qed

section \<open>Only administrators pass the Authorization Gate of the users router\<close>

text \<open>
  Claim C3. On every route of \<open>/api/v1/users\<close>, once \<open>protect\<close> has authenticated
  the request and attached an identity: if the identity's role is not
  \<open>administrator\<close>, the response is HTTP 403 with the message
  \<open>User role <role> is not authorized to access this route\<close> naming that role, and
  the store is untouched; if the role is \<open>administrator\<close>, the route's handler runs
  on the authenticated request.
\<close>

theorem users_router_admits_only_administrator:
  assumes "protect L e db now req = Next req1"
  shows "\<exists>u. req_user req1 = Some u
           \<and> (role (doc u) \<noteq> Administrator \<longrightarrow>
                users_router r L e db new_id salt now req =
                  (Respond \<lparr>status = 403,
                            rbody = JObj [(''success'', JBool False),
                              (''message'', JStr (''User role '' @ role_name (role (doc u))
                                 @ '' is not authorized to access this route''))]\<rparr>, db))
           \<and> (role (doc u) = Administrator \<longrightarrow>
                users_router r L e db new_id salt now req =
                  users_handler r L db new_id salt now req1)"
proof -
  from protect_next_user [OF assms] obtain u where
    u: "req1 = req\<lparr>req_user := Some \<lparr>doc = u, selected = default_paths\<rparr>\<rparr>"
    by blast
  have r: "doc_role \<lparr>doc = u, selected = default_paths\<rparr> = Some (role_name (role u))"
    by (simp add: doc_role_def default_paths_def schema_paths_def)
  have n: "role u \<noteq> Administrator \<Longrightarrow> role_name (role u) \<noteq> ''administrator''"
    by (cases "role u") simp_all
  show ?thesis
    using assms u r n
    by (auto simp: users_router_def authorize_def forbidden_def message_body_def)
qed

text \<open>
  The theorem at Bob's token (a client) on \<open>GET /api/v1/users/:id\<close> and at Alice's
  token (an administrator) on \<open>DELETE /api/v1/users/:id\<close>.
\<close>

theorem users_router_admits_only_administrator_witness:
  "users_router GET_users_id demo_lib demo_env demo_db [] [] 5
     (no_request\<lparr>authorization := Some ''Bearer s3cret:64b000000000000000000002''\<rparr>) =
     (Respond \<lparr>status = 403,
               rbody = JObj [(''success'', JBool False),
                 (''message'', JStr ''User role client is not authorized to access this route'')]\<rparr>,
      demo_db)
   \<and> users_router DELETE_users_id demo_lib demo_env demo_db [] [] 5
     (no_request\<lparr>authorization := Some ''Bearer s3cret:64b000000000000000000001'',
                 params_id := ''64b000000000000000000002''\<rparr>) =
     (Respond \<lparr>status = 200, rbody = JObj [(''success'', JBool True), (''data'', JObj [])]\<rparr>,
      [alice])"
proof -
  let ?req = "no_request\<lparr>authorization := Some ''Bearer s3cret:64b000000000000000000002''\<rparr>"
  let ?req1 = "?req\<lparr>req_user := Some \<lparr>doc = bob, selected = default_paths\<rparr>\<rparr>"
  let ?adm = "no_request\<lparr>authorization := Some ''Bearer s3cret:64b000000000000000000001'',
                 params_id := ''64b000000000000000000002''\<rparr>"
  let ?adm1 = "?adm\<lparr>req_user := Some \<lparr>doc = alice, selected = default_paths\<rparr>\<rparr>"
  have t: "bearer_token ?req = Some ''s3cret:64b000000000000000000002''"
    by (simp add: bearer_token_def no_request_def startsWith_def split_def at_index_def)
  have f: "findById demo_db (Some ''64b000000000000000000002'') =
             Inr (Some \<lparr>doc = bob, selected = default_paths\<rparr>)"
    by (simp add: findById_def demo_cast_bob demo_db_def alice_def bob_def)
  have p: "protect demo_lib demo_env demo_db 5 ?req = Next ?req1"
    by (simp add: protect_def protect_try_def t f demo_env_def nonempty_def demo_lib_def
                  demo_verify_def)
  have t': "bearer_token ?adm = Some ''s3cret:64b000000000000000000001''"
    by (simp add: bearer_token_def no_request_def startsWith_def split_def at_index_def)
  have f': "findById demo_db (Some ''64b000000000000000000001'') =
             Inr (Some \<lparr>doc = alice, selected = default_paths\<rparr>)"
    by (simp add: findById_def demo_cast_alice demo_db_def alice_def bob_def)
  have p': "protect demo_lib demo_env demo_db 5 ?adm = Next ?adm1"
    by (simp add: protect_def protect_try_def t' f' demo_env_def nonempty_def demo_lib_def
                  demo_verify_def)
  have h: "users_handler DELETE_users_id demo_lib demo_db [] [] 5 ?adm1 =
             (Respond \<lparr>status = 200,
                       rbody = JObj [(''success'', JBool True), (''data'', JObj [])]\<rparr>, [alice])"
    by (simp add: users_handler_def deleteUser_def findByIdAndDelete_def no_request_def
                  demo_cast_bob demo_db_def alice_def bob_def data_response_def)
  from users_router_admits_only_administrator [OF p, of GET_users_id "[]" "[]"]
       users_router_admits_only_administrator [OF p', of DELETE_users_id "[]" "[]"] h
  show ?thesis
    by (simp add: bob_def alice_def)
qed

section \<open>Login looks the user up by email when an email is given\<close>

text \<open>
  Claim C9. When a login request supplies a (non-empty) email, the query is
  \<open>{email}\<close> alone: whatever username the request also carries, or none, the
  outcome is the same. So a request with A's email and B's username is checked
  against A: with a password, the outcome is the token response for A when the
  password matches A's stored one, and the 401 \<open>Invalid credentials\<close> otherwise.
\<close>

theorem login_by_email_ignores_username:
  assumes "b_email (req_body req) = Some em" and "em \<noteq> []"
  shows "login_query (req_body req) = [(''email'', em)]
         \<and> login L e db now (req\<lparr>req_body := (req_body req)\<lparr>b_username := un\<rparr>\<rparr>) =
             login L e db now req
         \<and> (\<forall>a pw. find (\<lambda>u. email u = em) db = Some a
                   \<and> b_password (req_body req) = Some (JStr pw) \<and> pw \<noteq> [] \<longrightarrow>
               login L e db now req =
                 (if bcrypt_compare L pw (password a)
                  then (case sendTokenResponse L e now \<lparr>doc = a, selected = schema_paths\<rparr> 200 of
                          Inl err \<Rightarrow> NextErr err
                        | Inr r \<Rightarrow> Respond r)
                  else Respond \<lparr>status = 401,
                                rbody = JObj [(''success'', JBool False),
                                              (''message'', JStr ''Invalid credentials'')]\<rparr>))"
proof -
  have q: "login_query (req_body req) = [(''email'', em)]"
    using assms by (simp add: login_query_def nonempty_def)
  have q': "login_query ((req_body req)\<lparr>b_username := un\<rparr>) = [(''email'', em)]"
    using assms by (simp add: login_query_def nonempty_def)
  have t: "truthy (b_email (req_body req))"
    using assms by (simp add: truthy_def)
  have same: "login L e db now (req\<lparr>req_body := (req_body req)\<lparr>b_username := un\<rparr>\<rparr>) =
                login L e db now req"
    using t
    by (cases "b_password (req_body req)") (simp_all add: login_def Let_def q q')
  have m: "matches [(''email'', em)] = (\<lambda>u. email u = em)"
    by (rule ext) (simp add: matches_def str_field_def)
  have auth: "login L e db now req =
                 (if bcrypt_compare L pw (password a)
                  then (case sendTokenResponse L e now \<lparr>doc = a, selected = schema_paths\<rparr> 200 of
                          Inl err \<Rightarrow> NextErr err
                        | Inr r \<Rightarrow> Respond r)
                  else Respond \<lparr>status = 401,
                                rbody = JObj [(''success'', JBool False),
                                              (''message'', JStr ''Invalid credentials'')]\<rparr>)"
    if "find (\<lambda>u. email u = em) db = Some a" "b_password (req_body req) = Some (JStr pw)"
       "pw \<noteq> []"
    for a pw
    using that t
    by (simp add: login_def Let_def q m findOne_plus_password cast_filter_email
                  matchPassword_selected invalid_credentials_def message_body_def)
  show ?thesis
    using q same auth by blast
qed

text \<open>
  The theorem at a request with Alice's email, Bob's username and Bob's
  password: it is refused, as Alice's password is another one; with Alice's
  password it gets a token for Alice.
\<close>

theorem login_by_email_ignores_username_witness:
  "login demo_lib demo_env demo_db 5
     (no_request\<lparr>req_body := no_body\<lparr>b_email := Some ''alice@x.com'', b_username := Some ''bob'',
                                      b_password := Some (JStr ''Builder22'')\<rparr>\<rparr>) =
     Respond \<lparr>status = 401,
              rbody = JObj [(''success'', JBool False),
                            (''message'', JStr ''Invalid credentials'')]\<rparr>
   \<and> login demo_lib demo_env demo_db 5
     (no_request\<lparr>req_body := no_body\<lparr>b_email := Some ''alice@x.com'', b_username := Some ''bob'',
                                      b_password := Some (JStr ''Wonderland1'')\<rparr>\<rparr>) =
     Respond \<lparr>status = 200,
              rbody = JObj [(''success'', JBool True),
                            (''token'', JStr ''s3cret:64b000000000000000000001'')]\<rparr>"
proof -
  let ?r1 = "no_request\<lparr>req_body := no_body\<lparr>b_email := Some ''alice@x.com'',
                b_username := Some ''bob'', b_password := Some (JStr ''Builder22'')\<rparr>\<rparr>"
  let ?r2 = "no_request\<lparr>req_body := no_body\<lparr>b_email := Some ''alice@x.com'',
                b_username := Some ''bob'', b_password := Some (JStr ''Wonderland1'')\<rparr>\<rparr>"
  have e1: "b_email (req_body ?r1) = Some ''alice@x.com''"
    by (simp add: no_request_def no_body_def)
  have e2: "b_email (req_body ?r2) = Some ''alice@x.com''"
    by (simp add: no_request_def no_body_def)
  have f: "find (\<lambda>u. email u = ''alice@x.com'') demo_db = Some alice"
    by (simp add: demo_db_def alice_def)
  have p1: "b_password (req_body ?r1) = Some (JStr ''Builder22'')"
    by (simp add: no_request_def no_body_def)
  have p2: "b_password (req_body ?r2) = Some (JStr ''Wonderland1'')"
    by (simp add: no_request_def no_body_def)
  have s: "sendTokenResponse demo_lib demo_env 5 \<lparr>doc = alice, selected = schema_paths\<rparr> 200 =
             Inr \<lparr>status = 200,
                  rbody = JObj [(''success'', JBool True),
                                (''token'', JStr ''s3cret:64b000000000000000000001'')]\<rparr>"
    by (simp add: sendTokenResponse_def getSignedJwtToken_def demo_env_def nonempty_def
                  demo_lib_def demo_sign_def doc_id_def schema_paths_def alice_def)
  have c1: "\<not> bcrypt_compare demo_lib ''Builder22'' (password alice)"
    by (simp add: demo_lib_def alice_def)
  have c2: "bcrypt_compare demo_lib ''Wonderland1'' (password alice)"
    by (simp add: demo_lib_def alice_def)
  from login_by_email_ignores_username [OF e1, of demo_lib demo_env demo_db 5] f p1 c1
  have 1: "login demo_lib demo_env demo_db 5 ?r1 =
             Respond \<lparr>status = 401,
                      rbody = JObj [(''success'', JBool False),
                                    (''message'', JStr ''Invalid credentials'')]\<rparr>"
    by simp
  from login_by_email_ignores_username [OF e2, of demo_lib demo_env demo_db 5] f p2 c2 s
  have 2: "login demo_lib demo_env demo_db 5 ?r2 =
             Respond \<lparr>status = 200,
                      rbody = JObj [(''success'', JBool True),
                                    (''token'', JStr ''s3cret:64b000000000000000000001'')]\<rparr>"
    by simp
  show ?thesis
    using 1 2 by blast
qed

section \<open>The current identity of a deleted user\<close>

text \<open>
  Claim C10. When \<open>getMe\<close> runs with an attached identity whose id the store no
  longer resolves (\<open>findById\<close> returns \<open>null\<close>), it responds HTTP 200 with the body
  \<open>{success: true, data: null}\<close>, not an error status.
\<close>

theorem getMe_of_deleted_user:
  assumes "req_user req = Some me" and "findById db (doc_id me) = Inr None"
  shows "getMe db req =
           Respond \<lparr>status = 200,
                    rbody = JObj [(''success'', JBool True), (''data'', JNull)]\<rparr>"
  using assms by (simp add: getMe_def)

text \<open>The theorem at a request carrying Bob's identity, on a store that only holds Alice.\<close>

theorem getMe_of_deleted_user_witness:
  "findById [alice] (doc_id \<lparr>doc = bob, selected = default_paths\<rparr>) = Inr None
   \<and> getMe [alice] (no_request\<lparr>req_user := Some \<lparr>doc = bob, selected = default_paths\<rparr>\<rparr>) =
       Respond \<lparr>status = 200,
                rbody = JObj [(''success'', JBool True), (''data'', JNull)]\<rparr>"
proof -
  have u: "req_user (no_request\<lparr>req_user := Some \<lparr>doc = bob, selected = default_paths\<rparr>\<rparr>) =
             Some \<lparr>doc = bob, selected = default_paths\<rparr>"
    by simp
  have i: "doc_id \<lparr>doc = bob, selected = default_paths\<rparr> = Some ''64b000000000000000000002''"
    by (simp add: doc_id_def default_paths_def schema_paths_def bob_def)
  have f: "findById [alice] (doc_id \<lparr>doc = bob, selected = default_paths\<rparr>) = Inr None"
    by (simp add: i findById_def demo_cast_bob alice_def)
  from getMe_of_deleted_user [OF u f] f show ?thesis
    by simp
qed

section \<open>Field selection and the stored password\<close>

text \<open>
  Claim C4 says that no response body ever holds a stored password hash, also
  for \<open>GET /api/v1/users\<close> with any \<open>fields\<close> selection. The schema leaves
  \<open>password\<close> out of queries by default, but \<open>getUsers\<close> hands the \<open>fields\<close> parameter
  to \<open>.select\<close> as it comes, and \<open>+password\<close> forces the path in (the form \<open>login\<close>
  itself uses to read the hash). At the query \<open>fields=+password\<close> on the example
  store, the \<open>data\<close> array of the HTTP 200 response holds the stored \<open>password\<close> of
  every user.
\<close>

theorem getUsers_fields_plus_password:
  "getUsers L demo_db (no_request\<lparr>req_query := [(''fields'', ''+password'')]\<rparr>) =
     Respond \<lparr>status = 200,
       rbody = JObj
         [(''success'', JBool True),
          (''count'', JNum 2),
          (''pagination'', JObj []),
          (''totalPages'', JNum 1),
          (''currentPage'', JNum 1),
          (''data'', JArr
             [JObj [(''_id'', JStr ''64b000000000000000000001''), (''name'', JStr ''Alice''),
                    (''username'', JStr ''alice''), (''email'', JStr ''alice@x.com''),
                    (''role'', JStr ''administrator''), (''password'', JStr ''saltWonderland1''),
                    (''createdAt'', JNum 1000), (''__v'', JNum 0)],
              JObj [(''_id'', JStr ''64b000000000000000000002''), (''name'', JStr ''Bob''),
                    (''username'', JStr ''bob''), (''email'', JStr ''bob@x.com''),
                    (''role'', JStr ''client''), (''password'', JStr ''saltBuilder22''),
                    (''phone'', JStr ''0912''),
                    (''createdAt'', JNum 2000), (''__v'', JNum 0)]])]\<rparr>"
proof -
  let ?q = "[(''fields'', ''+password'')]"
  have s: "join '' '' (split CHR '','' ''+password'') = ''+password''"
    by (simp add: split_def)
  have o: "sort_by (sort_cmp [(''name'', 1)]) [alice, bob] = [alice, bob]"
    by (simp add: sort_by_def path_cmp_def str_field_def alice_def bob_def)
  have f: "filter (regex_matches L []) demo_db = demo_db"
    by (simp add: regex_matches_def)
  have p: "find_page L demo_db [] ''+password'' [(''name'', 1)] 0 10 =
             Inr [\<lparr>doc = alice, selected = schema_paths\<rparr>, \<lparr>doc = bob, selected = schema_paths\<rparr>]"
    by (simp add: find_page_def select_plus_password f) (simp add: demo_db_def o)
  have ce: "filter_cast_error L [] = None"
    by (simp add: filter_cast_error_def)
  have qo: "filter (\<lambda>(param, v). param \<notin> set excludedParams) ?q = []"
    by (simp add: excludedParams_def)
  have pg: "int_param ?q ''page'' 1 = 1" and lm: "int_param ?q ''limit'' 10 = 10"
    by (simp_all add: int_param_def)
  have so: "sort_spec ?q = [(''name'', 1)]"
    by (simp add: sort_spec_def nonempty_def)
  have se: "(case nonempty (map_of ?q ''fields'') of None \<Rightarrow> []
             | Some f \<Rightarrow> join '' '' (split CHR '','' f)) = ''+password''"
    by (simp add: nonempty_def s)
  have n: "length demo_db = 2"
    by (simp add: demo_db_def)
  have ja: "toJSON \<lparr>doc = alice, selected = schema_paths\<rparr> =
              JObj [(''_id'', JStr ''64b000000000000000000001''), (''name'', JStr ''Alice''),
                    (''username'', JStr ''alice''), (''email'', JStr ''alice@x.com''),
                    (''role'', JStr ''administrator''), (''password'', JStr ''saltWonderland1''),
                    (''createdAt'', JNum 1000), (''__v'', JNum 0)]"
    by (simp add: toJSON_def schema_paths_def field_json_def str_field_def alice_def)
  have jb: "toJSON \<lparr>doc = bob, selected = schema_paths\<rparr> =
              JObj [(''_id'', JStr ''64b000000000000000000002''), (''name'', JStr ''Bob''),
                    (''username'', JStr ''bob''), (''email'', JStr ''bob@x.com''),
                    (''role'', JStr ''client''), (''password'', JStr ''saltBuilder22''),
                    (''phone'', JStr ''0912''),
                    (''createdAt'', JNum 2000), (''__v'', JNum 0)]"
    by (simp add: toJSON_def schema_paths_def field_json_def str_field_def bob_def)
  have r: "req_query (no_request\<lparr>req_query := ?q\<rparr>) = ?q"
    by simp
  show ?thesis
    unfolding getUsers_def Let_def r qo pg lm so se f ce
    by (simp add: p ja jb n)
qed

section \<open>The duration of an issued token\<close>

text \<open>
  Claim C5 says that a token expires at its issuance time plus the configured
  duration, and that the duration is 30 days when none is configured.
  \<open>getSignedJwtToken\<close> passes \<open>process.env.JWT_EXPIRE\<close> to \<open>jwt.sign\<close> unchanged. In an
  environment that sets a secret and no \<open>JWT_EXPIRE\<close>, the signing library
  receives \<open>expiresIn: undefined\<close>; the default \<open>30d\<close> exists only in
  \<open>SECURITY_CONFIG.JWT_EXPIRE\<close>, which token issuance does not read.
\<close>

theorem getSignedJwtToken_without_configured_duration:
  "getSignedJwtToken L env_without_expire now \<lparr>doc = alice, selected = schema_paths\<rparr> =
     jwt_sign L (Some ''64b000000000000000000001'') ''s3cret'' None now
   \<and> SECURITY_CONFIG_JWT_EXPIRE env_without_expire = ''30d''"
  by (simp add: getSignedJwtToken_def env_without_expire_def nonempty_def doc_id_def
                schema_paths_def alice_def SECURITY_CONFIG_JWT_EXPIRE_def)

section \<open>A missing signing secret\<close>

text \<open>
  Claim C6 says that the process fails at startup when the signing secret is
  absent. As stated it is false: with no \<open>JWT_SECRET\<close> in the environment and a
  database that connects, \<open>server.ts\<close> listens (here on port 8080) and does not
  exit.
\<close>

theorem server_starts_without_secret_counterexample:
  "\<not> (nonempty (env_without_secret ''JWT_SECRET'') = None \<longrightarrow>
        server_start env_without_secret (Inr ()) = Exited 1)"
  by (simp add: env_without_secret_def nonempty_def server_start_def)

text \<open>
  Claim C6 as amended. When the signing secret is absent (unset or empty),
  startup does not fail on that account: the server listens once the database
  connects. The absence is detected at each use. Issuing a token throws
  \<open>JWT_SECRET is not defined in environment variables\<close>. \<open>register\<close>, once it has
  created the user, and \<open>login\<close>, once the password has matched, pass that error
  to the error handler, which answers HTTP 500 with that message. \<open>protect\<close>
  answers every request with the generic HTTP 401.
\<close>

theorem missing_secret_is_detected_at_use:
  assumes "nonempty (e ''JWT_SECRET'') = None"
  shows "server_start e (Inr ()) =
           Listening (case nonempty (e ''PORT'') of None \<Rightarrow> ''5000'' | Some p \<Rightarrow> p)
         \<and> getSignedJwtToken L e now d =
             Inl (Error ''JWT_SECRET is not defined in environment variables'')
         \<and> sendTokenResponse L e now d code =
             Inl (Error ''JWT_SECRET is not defined in environment variables'')
         \<and> (\<forall>u db'. create L db new_id salt now (req_body rreq) = Inr (u, db') \<longrightarrow>
               register L e db new_id salt now rreq =
                 (NextErr (Error ''JWT_SECRET is not defined in environment variables''), db')
               \<and> settle (fst (register L e db new_id salt now rreq)) =
                 Respond \<lparr>status = 500,
                   rbody = JObj [(''success'', JBool False),
                     (''error'', JStr ''JWT_SECRET is not defined in environment variables'')]\<rparr>)
         \<and> (\<forall>u pw. (truthy (b_email (req_body lreq)) \<or> truthy (b_username (req_body lreq)))
                   \<and> b_password (req_body lreq) = Some (JStr pw) \<and> pw \<noteq> []
                   \<and> find (matches (cast_filter (login_query (req_body lreq)))) db = Some u
                   \<and> bcrypt_compare L pw (password u) \<longrightarrow>
               login L e db now lreq =
                 NextErr (Error ''JWT_SECRET is not defined in environment variables'')
               \<and> settle (login L e db now lreq) =
                 Respond \<lparr>status = 500,
                   rbody = JObj [(''success'', JBool False),
                     (''error'', JStr ''JWT_SECRET is not defined in environment variables'')]\<rparr>)
         \<and> errorHandler (Error ''JWT_SECRET is not defined in environment variables'') =
             \<lparr>status = 500,
              rbody = JObj [(''success'', JBool False),
                 (''error'', JStr ''JWT_SECRET is not defined in environment variables'')]\<rparr>
         \<and> protect L e db now req =
             Respond \<lparr>status = 401,
                      rbody = JObj [(''success'', JBool False),
                                    (''message'', JStr ''Not authorized to access this route'')]\<rparr>"
proof -
  let ?err = "Error ''JWT_SECRET is not defined in environment variables''"
  let ?r500 = "\<lparr>status = 500,
              rbody = JObj [(''success'', JBool False),
                 (''error'', JStr ''JWT_SECRET is not defined in environment variables'')]\<rparr>"
  have 1: "getSignedJwtToken L e now' d' = Inl ?err" for now' d'
    using assms by (simp add: getSignedJwtToken_def secret_missing_def)
  have 2: "protect L e db now req = Respond not_authorized"
    using assms by (simp add: protect_def protect_try_def split: option.splits)
  have 3: "errorHandler ?err = ?r500"
    by (simp add: errorHandler_def Error_def)
  have 4: "sendTokenResponse L e now' d' code' = Inl ?err" for now' d' code'
    by (simp add: sendTokenResponse_def 1)
  have 5: "register L e db new_id salt now rreq = (NextErr ?err, db')
           \<and> settle (fst (register L e db new_id salt now rreq)) = Respond ?r500"
    if "create L db new_id salt now (req_body rreq) = Inr (u, db')" for u db'
    using that by (simp add: register_def 4 settle_def 3)
  have 6: "login L e db now lreq = NextErr ?err
           \<and> settle (login L e db now lreq) = Respond ?r500"
    if "truthy (b_email (req_body lreq)) \<or> truthy (b_username (req_body lreq))"
       "b_password (req_body lreq) = Some (JStr pw)" "pw \<noteq> []"
       "find (matches (cast_filter (login_query (req_body lreq)))) db = Some u"
       "bcrypt_compare L pw (password u)"
    for u pw
  proof -
    have "login L e db now lreq = NextErr ?err"
      using that
      by (auto simp: login_def Let_def findOne_plus_password matchPassword_selected 4)
    then show ?thesis
      by (simp add: settle_def 3)
  qed
  have 7: "server_start e (Inr ()) =
           Listening (case nonempty (e ''PORT'') of None \<Rightarrow> ''5000'' | Some p \<Rightarrow> p)"
    by (simp add: server_start_def)
  have 8: "protect L e db now req =
             Respond \<lparr>status = 401,
                      rbody = JObj [(''success'', JBool False),
                                    (''message'', JStr ''Not authorized to access this route'')]\<rparr>"
    using 2 by (simp add: not_authorized_def message_body_def)
  show ?thesis
    using 1 [of now d] 4 [of now d code] 3 5 6 7 8 by blast
qed

text \<open>
  The amended claim at an environment without a secret: Carol's registration
  stores her and is answered 500, Bob's login with his password is answered
  500, and a request with a token is answered 401.
\<close>

theorem missing_secret_is_detected_at_use_witness:
  "nonempty (env_without_secret ''JWT_SECRET'') = None
   \<and> server_start env_without_secret (Inr ()) = Listening ''8080''
   \<and> getSignedJwtToken demo_lib env_without_secret 5 \<lparr>doc = alice, selected = schema_paths\<rparr> =
       Inl (Error ''JWT_SECRET is not defined in environment variables'')
   \<and> register demo_lib env_without_secret demo_db ''64b000000000000000000003'' ''pepr'' 3000
       (no_request\<lparr>req_body := carol_body\<rparr>) =
       (NextErr (Error ''JWT_SECRET is not defined in environment variables''),
        [alice, bob, carol])
   \<and> settle (fst (register demo_lib env_without_secret demo_db ''64b000000000000000000003''
                    ''pepr'' 3000 (no_request\<lparr>req_body := carol_body\<rparr>))) =
       Respond \<lparr>status = 500,
         rbody = JObj [(''success'', JBool False),
           (''error'', JStr ''JWT_SECRET is not defined in environment variables'')]\<rparr>
   \<and> settle (login demo_lib env_without_secret demo_db 5
       (no_request\<lparr>req_body := no_body\<lparr>b_email := Some ''bob@x.com'',
                                        b_password := Some (JStr ''Builder22'')\<rparr>\<rparr>)) =
       Respond \<lparr>status = 500,
         rbody = JObj [(''success'', JBool False),
           (''error'', JStr ''JWT_SECRET is not defined in environment variables'')]\<rparr>
   \<and> protect demo_lib env_without_secret demo_db 5
       (no_request\<lparr>authorization := Some ''Bearer s3cret:64b000000000000000000001''\<rparr>) =
       Respond \<lparr>status = 401,
                rbody = JObj [(''success'', JBool False),
                              (''message'', JStr ''Not authorized to access this route'')]\<rparr>"
proof -
  let ?rreq = "no_request\<lparr>req_body := carol_body\<rparr>"
  let ?lreq = "no_request\<lparr>req_body := no_body\<lparr>b_email := Some ''bob@x.com'',
                                        b_password := Some (JStr ''Builder22'')\<rparr>\<rparr>"
  have n: "nonempty (env_without_secret ''JWT_SECRET'') = None"
    by (simp add: env_without_secret_def nonempty_def)
  have p: "nonempty (env_without_secret ''PORT'') = Some ''8080''"
    by (simp add: env_without_secret_def nonempty_def)
  have vc: "validate_new demo_lib carol_body = []"
    by (simp add: validate_new_def carol_body_def check_name_def check_username_def
                  check_email_def check_role_def check_password_def check_phone_def
                  check_address_def nonempty_def trim_examples demo_lib_def)
  have cc: "create demo_lib demo_db ''64b000000000000000000003'' ''pepr'' 3000
              (req_body ?rreq) =
            Inr (\<lparr>doc = carol, selected = schema_paths\<rparr>, [alice, bob, carol])"
    unfolding create_def Let_def
    by (simp add: vc)
       (simp add: carol_body_def pre_save_def trim_examples collides_def
                  demo_lib_def demo_db_def alice_def bob_def carol_def)
  have l1: "truthy (b_email (req_body ?lreq)) \<or> truthy (b_username (req_body ?lreq))"
    by (simp add: truthy_def no_request_def no_body_def)
  have l2: "b_password (req_body ?lreq) = Some (JStr ''Builder22'')"
    by (simp add: no_request_def no_body_def)
  have l3: "find (matches (cast_filter (login_query (req_body ?lreq)))) demo_db = Some bob"
    by (simp add: login_query_def nonempty_def no_request_def no_body_def cast_filter_def
                  matches_def str_field_def demo_db_def alice_def bob_def)
  have l4: "bcrypt_compare demo_lib ''Builder22'' (password bob)"
    by (simp add: demo_lib_def bob_def)
  from missing_secret_is_detected_at_use
         [of env_without_secret demo_lib 5 "\<lparr>doc = alice, selected = schema_paths\<rparr>" 200
            demo_db "''64b000000000000000000003''" "''pepr''" "?rreq" "?lreq"
            "no_request\<lparr>authorization := Some ''Bearer s3cret:64b000000000000000000001''\<rparr>"]
       n p
  have t: "server_start env_without_secret (Inr ()) = Listening ''8080''"
      "getSignedJwtToken demo_lib env_without_secret 5 \<lparr>doc = alice, selected = schema_paths\<rparr> =
         Inl (Error ''JWT_SECRET is not defined in environment variables'')"
      "login demo_lib env_without_secret demo_db 5 ?lreq =
         NextErr (Error ''JWT_SECRET is not defined in environment variables'')
       \<and> settle (login demo_lib env_without_secret demo_db 5 ?lreq) =
         Respond \<lparr>status = 500,
           rbody = JObj [(''success'', JBool False),
             (''error'', JStr ''JWT_SECRET is not defined in environment variables'')]\<rparr>"
      "protect demo_lib env_without_secret demo_db 5
         (no_request\<lparr>authorization := Some ''Bearer s3cret:64b000000000000000000001''\<rparr>) =
         Respond \<lparr>status = 401,
                  rbody = JObj [(''success'', JBool False),
                                (''message'', JStr ''Not authorized to access this route'')]\<rparr>"
    using l1 l2 l3 l4 by auto
  from missing_secret_is_detected_at_use
         [of env_without_secret demo_lib 3000 "\<lparr>doc = alice, selected = schema_paths\<rparr>" 200
            demo_db "''64b000000000000000000003''" "''pepr''" "?rreq" "?lreq"
            "no_request\<lparr>authorization := Some ''Bearer s3cret:64b000000000000000000001''\<rparr>"]
       n cc
  have r: "register demo_lib env_without_secret demo_db ''64b000000000000000000003'' ''pepr'' 3000
             ?rreq =
           (NextErr (Error ''JWT_SECRET is not defined in environment variables''),
            [alice, bob, carol])
         \<and> settle (fst (register demo_lib env_without_secret demo_db
                ''64b000000000000000000003'' ''pepr'' 3000 ?rreq)) =
           Respond \<lparr>status = 500,
             rbody = JObj [(''success'', JBool False),
               (''error'', JStr ''JWT_SECRET is not defined in environment variables'')]\<rparr>"
    by blast
  show ?thesis
    using n t r by blast
qed

section \<open>A password changed through the update route\<close>

text \<open>
  Claim C7 says that \<open>matchPassword\<close> is true exactly for the plaintext supplied
  when the password was last set, and false for the stored value itself. The
  \<open>save\<close> hook hashes the password of a created user, but \<open>updateUser\<close> writes through
  \<open>findByIdAndUpdate\<close>, which runs no \<open>save\<close> hook. After the administrator's request
  \<open>PUT /api/v1/users/:id\<close> with \<open>{password: "newpass1"}\<close> for Bob, the store holds the
  plaintext \<open>newpass1\<close> at Bob's \<open>password\<close> path, and \<open>matchPassword\<close> compares the
  candidate with that plaintext: the last plaintext and the stored value are
  the same string, for which the claim asks both true and false.
\<close>

theorem updateUser_stores_password_unhashed:
  "updateUser L demo_db
     (no_request\<lparr>params_id := ''64b000000000000000000002'',
                 req_body := no_body\<lparr>b_password := Some (JStr ''newpass1'')\<rparr>\<rparr>) =
     (Respond (data_response 200
        (toJSON \<lparr>doc = bob\<lparr>password := ''newpass1''\<rparr>, selected = default_paths\<rparr>)),
      [alice, bob\<lparr>password := ''newpass1''\<rparr>])
   \<and> matchPassword L \<lparr>doc = bob\<lparr>password := ''newpass1''\<rparr>, selected = schema_paths\<rparr>
       (JStr ''newpass1'') =
       Inr (bcrypt_compare L ''newpass1'' ''newpass1'')"
proof -
  have v: "validate_update L (no_body\<lparr>b_password := Some (JStr ''newpass1'')\<rparr>) = []"
    by (simp add: validate_update_def no_body_def check_role_def check_password_def
                  check_phone_def check_address_def nonempty_def)
  have a: "apply_update (no_body\<lparr>b_password := Some (JStr ''newpass1'')\<rparr>) bob =
             bob\<lparr>password := ''newpass1''\<rparr>"
    by (simp add: apply_update_def no_body_def bob_def)
  have c: "\<not> collides (bob\<lparr>password := ''newpass1''\<rparr>)
               (filter (\<lambda>v. uid v \<noteq> ''64b000000000000000000002'') demo_db)"
    by (simp add: collides_def demo_db_def alice_def bob_def)
  have f: "find (\<lambda>u. uid u = ''64b000000000000000000002'') demo_db = Some bob"
    by (simp add: demo_db_def alice_def bob_def)
  have m: "map (\<lambda>v. if uid v = ''64b000000000000000000002'' then bob\<lparr>password := ''newpass1''\<rparr>
                     else v) demo_db = [alice, bob\<lparr>password := ''newpass1''\<rparr>]"
    by (simp add: demo_db_def alice_def bob_def)
  have u: "findByIdAndUpdate L demo_db ''64b000000000000000000002''
             (no_body\<lparr>b_password := Some (JStr ''newpass1'')\<rparr>) =
           Inr (Some \<lparr>doc = bob\<lparr>password := ''newpass1''\<rparr>, selected = default_paths\<rparr>,
                [alice, bob\<lparr>password := ''newpass1''\<rparr>])"
    by (simp add: findByIdAndUpdate_def Let_def demo_cast_bob v f a c m)
  show ?thesis
    by (simp add: updateUser_def no_request_def u matchPassword_selected)
qed

section \<open>Registering a username that is taken\<close>

text \<open>
  Claim C8. On any store the program builds, a registration whose username
  equals, character for character, the username of a stored user fails: the
  error handler answers HTTP 400 with \<open>{success: false, error: msg}\<close>, and nothing
  is stored. This holds whatever email the request carries. When the rest of
  the body is valid, the failure is the unique index's duplicate-key error and
  \<open>msg\<close> is \<open>Duplicate field value entered\<close>; otherwise it is the schema's
  validation error and \<open>msg\<close> lists the validators' messages.
\<close>

theorem register_existing_username_is_rejected:
  assumes "reachable L db" and "u \<in> set db"
      and "b_username (req_body req) = Some (username u)"
  shows "\<exists>msg. settle (fst (register L e db new_id salt now req)) =
                 Respond \<lparr>status = 400,
                          rbody = JObj [(''success'', JBool False), (''error'', JStr msg)]\<rparr>
               \<and> (validate_new L (req_body req) = [] \<longrightarrow> msg = ''Duplicate field value entered'')
               \<and> snd (register L e db new_id salt now req) = db"
proof -
  from reachable_usernames_trimmed [OF assms(1)] assms(2)
  have t: "trim (username u) = username u"
    by blast
  from create_duplicate_username [OF assms(2) t assms(3), of L new_id salt now]
  show ?thesis
    by (cases "validate_new L (req_body req) = []")
       (simp_all add: register_def settle_def errorHandler_duplicate_key
                      errorHandler_ValidationError)
qed

text \<open>
  The theorem at the example store and a registration that takes Bob's
  username with an email no user has.
\<close>

theorem register_existing_username_is_rejected_witness:
  "settle (fst (register demo_lib demo_env demo_db ''64b000000000000000000003'' ''pepr'' 3000
     (no_request\<lparr>req_body := \<lparr>b_name = Some ''Robert'', b_username = Some ''bob'',
        b_email = Some ''robert@y.org'', b_password = Some (JStr ''Abc12345!''),
        b_role = None, b_phone = None, b_address = None\<rparr>\<rparr>))) =
     Respond \<lparr>status = 400,
              rbody = JObj [(''success'', JBool False),
                            (''error'', JStr ''Duplicate field value entered'')]\<rparr>
   \<and> snd (register demo_lib demo_env demo_db ''64b000000000000000000003'' ''pepr'' 3000
     (no_request\<lparr>req_body := \<lparr>b_name = Some ''Robert'', b_username = Some ''bob'',
        b_email = Some ''robert@y.org'', b_password = Some (JStr ''Abc12345!''),
        b_role = None, b_phone = None, b_address = None\<rparr>\<rparr>)) = demo_db"
proof -
  let ?b = "\<lparr>b_name = Some ''Robert'', b_username = Some ''bob'',
        b_email = Some ''robert@y.org'', b_password = Some (JStr ''Abc12345!''),
        b_role = None, b_phone = None, b_address = None\<rparr>"
  let ?req = "no_request\<lparr>req_body := ?b\<rparr>"
  have m: "bob \<in> set demo_db"
    by (simp add: demo_db_def)
  have n: "b_username (req_body ?req) = Some (username bob)"
    by (simp add: bob_def)
  have v: "validate_new demo_lib (req_body ?req) = []"
    by (simp add: validate_new_def check_name_def check_username_def
                  check_email_def check_role_def check_password_def check_phone_def
                  check_address_def nonempty_def trim_examples demo_lib_def)
  from register_existing_username_is_rejected
         [OF demo_db_reachable m n, of demo_env "''64b000000000000000000003''" "''pepr''" 3000]
       v
  show ?thesis
    by auto
qed

end
